theory Spec2Isabelle
  imports Complex_Main "HOL-Library.Log_Nat" "HOL-Library.Sublist"
begin

section \<open>The host: Python floats, complex numbers and exceptions\<close>

text \<open>
  The calculator of \<^verbatim>\<open>src/project/calculator.py\<close> computes with Python floats, that
  is IEEE-754 binary64 numbers. A float is modelled by its value: every finite binary64
  number is a rational, and the three special values are constructors of their own. The
  sign of zero is not kept: the checks of the program do not depend on it (division and
  modulo by \<^verbatim>\<open>-0.0\<close> raise as for \<^verbatim>\<open>0.0\<close>, and \<^verbatim>\<open>-0.0 < 0\<close> is false).
\<close>

datatype pyfloat = Finite rat | PInf | NInf | NaN

fun float_isnan :: "pyfloat \<Rightarrow> bool" where
  "float_isnan NaN = True"
| "float_isnan _ = False"

fun float_isinf :: "pyfloat \<Rightarrow> bool" where
  "float_isinf PInf = True"
| "float_isinf NInf = True"
| "float_isinf _ = False"

fun float_isfinite :: "pyfloat \<Rightarrow> bool" where
  "float_isfinite (Finite _) = True"
| "float_isfinite _ = False"

text \<open>Comparison of floats: every comparison with NaN is false.\<close>

fun float_lt :: "pyfloat \<Rightarrow> pyfloat \<Rightarrow> bool" where
  "float_lt NaN _ = False"
| "float_lt _ NaN = False"
| "float_lt PInf _ = False"
| "float_lt _ NInf = False"
| "float_lt NInf _ = True"
| "float_lt _ PInf = True"
| "float_lt (Finite x) (Finite y) = (x < y)"

fun float_le :: "pyfloat \<Rightarrow> pyfloat \<Rightarrow> bool" where
  "float_le NaN _ = False"
| "float_le _ NaN = False"
| "float_le NInf _ = True"
| "float_le _ PInf = True"
| "float_le PInf _ = False"
| "float_le _ NInf = False"
| "float_le (Finite x) (Finite y) = (x \<le> y)"

definition float_is_zero :: "pyfloat \<Rightarrow> bool" where
  "float_is_zero x = (x = Finite 0)"

definition float_is_negative :: "pyfloat \<Rightarrow> bool" where
  "float_is_negative x = float_lt x (Finite 0)"

fun float_neg :: "pyfloat \<Rightarrow> pyfloat" where
  "float_neg (Finite x) = Finite (- x)"
| "float_neg PInf = NInf"
| "float_neg NInf = PInf"
| "float_neg NaN = NaN"

fun float_abs :: "pyfloat \<Rightarrow> pyfloat" where
  "float_abs (Finite x) = Finite \<bar>x\<bar>"
| "float_abs PInf = PInf"
| "float_abs NInf = PInf"
| "float_abs NaN = NaN"

subsection \<open>Rounding to binary64\<close>

definition pow2 :: "int \<Rightarrow> rat" where
  "pow2 e = (if 0 \<le> e then 2 ^ nat e else 1 / 2 ^ nat (- e))"

text \<open>Round to an integer, ties to even: Python's \<^verbatim>\<open>round\<close> and the IEEE default.\<close>

definition round_half_even :: "rat \<Rightarrow> int" where
  "round_half_even r =
     (let f = \<lfloor>r\<rfloor>; d = r - of_int f
      in if d < 1 / 2 then f
         else if 1 / 2 < d then f + 1
         else if even f then f else f + 1)"

text \<open>The binary exponent \<open>\<lfloor>log\<^sub>2 a\<rfloor>\<close> of a positive rational.\<close>

definition ilog2 :: "rat \<Rightarrow> int" where
  "ilog2 a =
     (case quotient_of a of (p, d) \<Rightarrow>
        let k = bitlen p - bitlen d in if pow2 k \<le> a then k else k - 1)"

text \<open>
  The binary64 number nearest to a rational (53 bits of precision, least exponent
  \<open>-1074\<close>, ties to even), or an infinity when the rounded magnitude \<open>m * 2^e\<close>
  reaches \<open>2^1024\<close>, that is when \<open>e + bitlen m\<close> exceeds 1024.
\<close>

definition round_double :: "rat \<Rightarrow> pyfloat" where
  "round_double q =
     (if q = 0 then Finite 0
      else
        let a = \<bar>q\<bar>;
            e = max (ilog2 a - 52) (- 1074);
            m = round_half_even (a / pow2 e);
            v = of_int m * pow2 e
        in if 1024 < e + bitlen m then (if 0 < q then PInf else NInf)
           else Finite (if 0 < q then v else - v))"

text \<open>A rational is a binary64 number when rounding leaves it as it is; these are the
  numbers \<open>m * 2^e\<close> with \<open>\<bar>m\<bar> \<le> 2^53\<close>, \<open>e \<ge> -1074\<close> and magnitude below \<open>2^1024\<close>
  (lemma \<open>is_binary64_iff\<close>).\<close>

definition is_binary64 :: "rat \<Rightarrow> bool" where
  "is_binary64 q = (round_double q = Finite q)"

subsection \<open>IEEE arithmetic\<close>

fun ieee_add :: "pyfloat \<Rightarrow> pyfloat \<Rightarrow> pyfloat" where
  "ieee_add NaN _ = NaN"
| "ieee_add _ NaN = NaN"
| "ieee_add PInf NInf = NaN"
| "ieee_add NInf PInf = NaN"
| "ieee_add PInf _ = PInf"
| "ieee_add _ PInf = PInf"
| "ieee_add NInf _ = NInf"
| "ieee_add _ NInf = NInf"
| "ieee_add (Finite x) (Finite y) = round_double (x + y)"

definition ieee_sub :: "pyfloat \<Rightarrow> pyfloat \<Rightarrow> pyfloat" where
  "ieee_sub x y = ieee_add x (float_neg y)"

fun ieee_mul :: "pyfloat \<Rightarrow> pyfloat \<Rightarrow> pyfloat" where
  "ieee_mul NaN _ = NaN"
| "ieee_mul _ NaN = NaN"
| "ieee_mul (Finite x) (Finite y) = round_double (x * y)"
| "ieee_mul (Finite x) y =
     (if x = 0 then NaN else if 0 < x then y else float_neg y)"
| "ieee_mul x (Finite y) =
     (if y = 0 then NaN else if 0 < y then x else float_neg x)"
| "ieee_mul x y = (if x = y then PInf else NInf)"

text \<open>IEEE division of a float by a non-zero float, as the C operator \<^verbatim>\<open>/\<close> computes it;
  a zero divisor gives an infinity or NaN there.\<close>

fun ieee_div :: "pyfloat \<Rightarrow> pyfloat \<Rightarrow> pyfloat" where
  "ieee_div NaN _ = NaN"
| "ieee_div _ NaN = NaN"
| "ieee_div (Finite x) (Finite y) =
     (if y = 0 then (if x = 0 then NaN else if 0 < x then PInf else NInf)
      else round_double (x / y))"
| "ieee_div (Finite x) _ = Finite 0"
| "ieee_div x (Finite y) = (if 0 \<le> y then x else float_neg x)"
| "ieee_div _ _ = NaN"

text \<open>C's \<^verbatim>\<open>fmod\<close>: exact, with the sign of the dividend.\<close>

definition rat_trunc :: "rat \<Rightarrow> int" where
  "rat_trunc r = (if 0 \<le> r then \<lfloor>r\<rfloor> else \<lceil>r\<rceil>)"

fun c_fmod :: "pyfloat \<Rightarrow> pyfloat \<Rightarrow> pyfloat" where
  "c_fmod NaN _ = NaN"
| "c_fmod _ NaN = NaN"
| "c_fmod PInf _ = NaN"
| "c_fmod NInf _ = NaN"
| "c_fmod (Finite x) (Finite y) =
     (if y = 0 then NaN else Finite (x - y * of_int (rat_trunc (x / y))))"
| "c_fmod (Finite x) _ = Finite x"

definition double_is_odd_integer :: "pyfloat \<Rightarrow> bool" where
  "double_is_odd_integer x = (c_fmod (float_abs x) (Finite 2) = Finite 1)"

subsection \<open>Values and exceptions\<close>

text \<open>
  The values an evaluation can produce. The source annotates every result as
  \<^verbatim>\<open>float\<close>, but Python's \<^verbatim>\<open>**\<close> returns a complex number for a negative base with a
  fractional exponent, so complex values are part of the model.
\<close>

datatype pyval = PyFloat pyfloat | PyComplex pyfloat pyfloat

text \<open>
  The texts of the exceptions. The program's own messages are Chinese sentences, each
  with at most one interpolated name; a constructor stands for the sentence and carries
  the name. \<open>Text\<close> is an ASCII message of the host.
  \<^item> \<open>UnsupportedConstantType\<close>: line 63, with the type's name;
  \<^item> \<open>UnsupportedUnaryOperator\<close>, \<open>UnsupportedBinaryOperator\<close>: lines 73 and 93;
  \<^item> \<open>UnsupportedFunction\<close>: lines 106 and 114;
  \<^item> \<open>UnsupportedAttributeAccess\<close>: line 108; \<open>UnsupportedCallFormat\<close>: line 110;
  \<^item> \<open>FunctionNeedsOneArgument\<close>: line 118 (the function's name, then "needs 1 argument");
  \<^item> \<open>KeywordArgumentsNotSupported\<close>: line 122;
  \<^item> \<open>UndefinedName\<close>: line 135; \<open>UnsupportedNodeType\<close>: line 138;
  \<^item> \<open>DivisionByZeroMessage\<close>, \<open>SyntaxErrorMessage\<close>, \<open>MathDomainErrorMessage\<close>:
    the three fixed messages of lines 46, 48 and 51;
  \<^item> \<open>ErrorPrefixed\<close>: line 54, the prefix of line 54 before the text of another exception.
\<close>

datatype message =
    Text string
  | UnsupportedConstantType string
  | UnsupportedUnaryOperator string
  | UnsupportedBinaryOperator string
  | UnsupportedFunction string
  | UnsupportedAttributeAccess string
  | UnsupportedCallFormat
  | FunctionNeedsOneArgument string
  | KeywordArgumentsNotSupported
  | UndefinedName string
  | UnsupportedNodeType string
  | DivisionByZeroMessage
  | SyntaxErrorMessage
  | MathDomainErrorMessage
  | ErrorPrefixed message

text \<open>
  The exception classes the program tells apart. \<open>SyntaxError\<close> and \<open>TypeError\<close> carry no
  text because no handler reads it; \<open>OtherException\<close> is any other subclass of
  \<^verbatim>\<open>Exception\<close>, with its class name.
\<close>

datatype pyexc =
    ZeroDivisionError
  | SyntaxError
  | TypeError
  | ValueError message
  | OverflowError message
  | OtherException string message

text \<open>The ASCII part of a message that is not fixed: the text of the host, or the
  interpolated name.\<close>

fun message_ascii :: "message \<Rightarrow> string" where
  "message_ascii (Text t) = t"
| "message_ascii (UnsupportedConstantType n) = n"
| "message_ascii (UnsupportedUnaryOperator n) = n"
| "message_ascii (UnsupportedBinaryOperator n) = n"
| "message_ascii (UnsupportedFunction n) = n"
| "message_ascii (UnsupportedAttributeAccess n) = n"
| "message_ascii UnsupportedCallFormat = []"
| "message_ascii (FunctionNeedsOneArgument n) = n"
| "message_ascii KeywordArgumentsNotSupported = []"
| "message_ascii (UndefinedName n) = n"
| "message_ascii (UnsupportedNodeType n) = n"
| "message_ascii DivisionByZeroMessage = []"
| "message_ascii SyntaxErrorMessage = []"
| "message_ascii MathDomainErrorMessage = []"
| "message_ascii (ErrorPrefixed m) = message_ascii m"

definition ascii_lower :: "char \<Rightarrow> char" where
  "ascii_lower c =
     (let n = (of_char c :: nat) in if 65 \<le> n \<and> n \<le> 90 then char_of (n + 32) else c)"

text \<open>Line 50: \<^verbatim>\<open>"math domain error" in str(e).lower()\<close>. The fixed Chinese parts of a
  message hold no ASCII letter, so the phrase can only occur in the ASCII part.\<close>

definition mentions_math_domain_error :: "message \<Rightarrow> bool" where
  "mentions_math_domain_error msg =
     sublist ''math domain error'' (map ascii_lower (message_ascii msg))"

subsection \<open>Python's arithmetic operators\<close>

fun as_complex :: "pyval \<Rightarrow> pyfloat \<times> pyfloat" where
  "as_complex (PyFloat x) = (x, Finite 0)"
| "as_complex (PyComplex re im) = (re, im)"

fun py_pos :: "pyval \<Rightarrow> pyval" where
  "py_pos v = v"

fun py_neg :: "pyval \<Rightarrow> pyval" where
  "py_neg (PyFloat x) = PyFloat (float_neg x)"
| "py_neg (PyComplex re im) = PyComplex (float_neg re) (float_neg im)"

fun py_add :: "pyval \<Rightarrow> pyval \<Rightarrow> pyexc + pyval" where
  "py_add (PyFloat x) (PyFloat y) = Inr (PyFloat (ieee_add x y))"
| "py_add a b =
     (case (as_complex a, as_complex b) of
        ((ar, ai), (br, bi)) \<Rightarrow> Inr (PyComplex (ieee_add ar br) (ieee_add ai bi)))"

fun py_sub :: "pyval \<Rightarrow> pyval \<Rightarrow> pyexc + pyval" where
  "py_sub (PyFloat x) (PyFloat y) = Inr (PyFloat (ieee_sub x y))"
| "py_sub a b =
     (case (as_complex a, as_complex b) of
        ((ar, ai), (br, bi)) \<Rightarrow> Inr (PyComplex (ieee_sub ar br) (ieee_sub ai bi)))"

fun py_mul :: "pyval \<Rightarrow> pyval \<Rightarrow> pyexc + pyval" where
  "py_mul (PyFloat x) (PyFloat y) = Inr (PyFloat (ieee_mul x y))"
| "py_mul a b =
     (case (as_complex a, as_complex b) of
        ((ar, ai), (br, bi)) \<Rightarrow>
          Inr (PyComplex (ieee_sub (ieee_mul ar br) (ieee_mul ai bi))
                         (ieee_add (ieee_mul ar bi) (ieee_mul ai br))))"

text \<open>The quotient of two complex numbers, CPython's \<^verbatim>\<open>_Py_c_quot\<close>; \<open>None\<close> is its
  \<^verbatim>\<open>EDOM\<close>, raised as \<^verbatim>\<open>ZeroDivisionError\<close>.\<close>

definition c_quot :: "pyfloat \<times> pyfloat \<Rightarrow> pyfloat \<times> pyfloat \<Rightarrow> (pyfloat \<times> pyfloat) option" where
  "c_quot a b =
     (case (a, b) of ((ar, ai), (br, bi)) \<Rightarrow>
        let abs_breal = float_abs br; abs_bimag = float_abs bi in
        if float_le abs_bimag abs_breal then
          (if float_is_zero abs_breal then None
           else
             let ratio = ieee_div bi br;
                 denom = ieee_add br (ieee_mul bi ratio)
             in Some (ieee_div (ieee_add ar (ieee_mul ai ratio)) denom,
                      ieee_div (ieee_sub ai (ieee_mul ar ratio)) denom))
        else if float_le abs_breal abs_bimag then
          (let ratio = ieee_div br bi;
               denom = ieee_add (ieee_mul br ratio) bi
           in Some (ieee_div (ieee_add (ieee_mul ar ratio) ai) denom,
                    ieee_div (ieee_sub (ieee_mul ai ratio) ar) denom))
        else Some (NaN, NaN))"

text \<open>\<^verbatim>\<open>/\<close>: a zero divisor raises \<^verbatim>\<open>ZeroDivisionError\<close>, for floats and for complex numbers.\<close>

fun py_truediv :: "pyval \<Rightarrow> pyval \<Rightarrow> pyexc + pyval" where
  "py_truediv (PyFloat x) (PyFloat y) =
     (if float_is_zero y then Inl ZeroDivisionError else Inr (PyFloat (ieee_div x y)))"
| "py_truediv a b =
     (case c_quot (as_complex a) (as_complex b) of
        None \<Rightarrow> Inl ZeroDivisionError
      | Some (re, im) \<Rightarrow> Inr (PyComplex re im))"

text \<open>\<^verbatim>\<open>%\<close> on floats, CPython's \<^verbatim>\<open>float_rem\<close>: the remainder takes the sign of the
  divisor. Complex numbers have no \<^verbatim>\<open>%\<close>: Python raises \<^verbatim>\<open>TypeError\<close>.\<close>

definition float_rem :: "pyfloat \<Rightarrow> pyfloat \<Rightarrow> pyexc + pyfloat" where
  "float_rem vx wx =
     (if float_is_zero wx then Inl ZeroDivisionError
      else
        let md = c_fmod vx wx in
        if \<not> float_is_zero md then
          (if float_is_negative wx \<noteq> float_is_negative md then Inr (ieee_add md wx)
           else Inr md)
        else Inr (Finite 0))"

fun py_mod :: "pyval \<Rightarrow> pyval \<Rightarrow> pyexc + pyval" where
  "py_mod (PyFloat x) (PyFloat y) =
     (case float_rem x y of Inl e \<Rightarrow> Inl e | Inr r \<Rightarrow> Inr (PyFloat r))"
| "py_mod _ _ = Inl TypeError"

subsection \<open>The C library\<close>

text \<open>
  What the platform's C library computes is not fixed by Python: the correctly rounded
  value is not promised for \<^verbatim>\<open>sin\<close>, \<^verbatim>\<open>log\<close> or \<^verbatim>\<open>pow\<close>. The numeric kernels are therefore
  parameters, on the arguments where C leaves the result to the implementation (finite
  arguments inside the function's real domain); every theorem holds for every choice.
  The special cases that C's Annex F and CPython fix are written out below.
  \<open>libm_cpow\<close> is CPython's complex power (\<^verbatim>\<open>complex_pow\<close>), which ends in a value, in
  \<^verbatim>\<open>ZeroDivisionError\<close> or in \<^verbatim>\<open>OverflowError\<close>.
\<close>

datatype cpow_outcome = CPowValue pyfloat pyfloat | CPowZeroDivision | CPowOverflow

record libm =
  libm_sqrt :: "rat \<Rightarrow> pyfloat"
  libm_sin :: "rat \<Rightarrow> pyfloat"
  libm_cos :: "rat \<Rightarrow> pyfloat"
  libm_tan :: "rat \<Rightarrow> pyfloat"
  libm_log :: "rat \<Rightarrow> pyfloat"
  libm_log10 :: "rat \<Rightarrow> pyfloat"
  libm_pow :: "rat \<Rightarrow> rat \<Rightarrow> pyfloat"
  libm_cpow :: "pyfloat \<times> pyfloat \<Rightarrow> pyfloat \<times> pyfloat \<Rightarrow> cpow_outcome"

fun c_sqrt :: "libm \<Rightarrow> pyfloat \<Rightarrow> pyfloat" where
  "c_sqrt m (Finite q) = (if q < 0 then NaN else libm_sqrt m q)"
| "c_sqrt m PInf = PInf"
| "c_sqrt m NInf = NaN"
| "c_sqrt m NaN = NaN"

fun c_sin :: "libm \<Rightarrow> pyfloat \<Rightarrow> pyfloat" where
  "c_sin m (Finite q) = libm_sin m q"
| "c_sin m _ = NaN"

fun c_cos :: "libm \<Rightarrow> pyfloat \<Rightarrow> pyfloat" where
  "c_cos m (Finite q) = libm_cos m q"
| "c_cos m _ = NaN"

fun c_tan :: "libm \<Rightarrow> pyfloat \<Rightarrow> pyfloat" where
  "c_tan m (Finite q) = libm_tan m q"
| "c_tan m _ = NaN"

text \<open>CPython's \<^verbatim>\<open>m_log\<close> and \<^verbatim>\<open>m_log10\<close>, which decide the special cases themselves:
  \<open>-inf\<close> at zero, NaN at a negative number or at \<open>-inf\<close>.\<close>

fun m_log :: "libm \<Rightarrow> pyfloat \<Rightarrow> pyfloat" where
  "m_log m (Finite q) = (if 0 < q then libm_log m q else if q = 0 then NInf else NaN)"
| "m_log m NaN = NaN"
| "m_log m PInf = PInf"
| "m_log m NInf = NaN"

fun m_log10 :: "libm \<Rightarrow> pyfloat \<Rightarrow> pyfloat" where
  "m_log10 m (Finite q) = (if 0 < q then libm_log10 m q else if q = 0 then NInf else NaN)"
| "m_log10 m NaN = NaN"
| "m_log10 m PInf = PInf"
| "m_log10 m NInf = NaN"

subsection \<open>The math module\<close>

text \<open>
  CPython's \<^verbatim>\<open>math_1\<close>, the wrapper of every function of one argument: a complex
  argument is a \<^verbatim>\<open>TypeError\<close>; a NaN result from a number, or an infinite result from a
  finite number, is \<^verbatim>\<open>ValueError("math domain error")\<close> (or \<^verbatim>\<open>OverflowError\<close> for
  the functions that can overflow, none of which the calculator uses).
\<close>

definition math_1 :: "(pyfloat \<Rightarrow> pyfloat) \<Rightarrow> bool \<Rightarrow> pyval \<Rightarrow> pyexc + pyval" where
  "math_1 func can_overflow arg =
     (case arg of
        PyComplex _ _ \<Rightarrow> Inl TypeError
      | PyFloat x \<Rightarrow>
          let r = func x in
          if float_isnan r \<and> \<not> float_isnan x then Inl (ValueError (Text ''math domain error''))
          else if float_isinf r \<and> float_isfinite x then
            (if can_overflow then Inl (OverflowError (Text ''math range error''))
             else Inl (ValueError (Text ''math domain error'')))
          else Inr (PyFloat r))"

definition math_sqrt :: "libm \<Rightarrow> pyval \<Rightarrow> pyexc + pyval" where
  "math_sqrt m = math_1 (c_sqrt m) False"

definition math_sin :: "libm \<Rightarrow> pyval \<Rightarrow> pyexc + pyval" where
  "math_sin m = math_1 (c_sin m) False"

definition math_cos :: "libm \<Rightarrow> pyval \<Rightarrow> pyexc + pyval" where
  "math_cos m = math_1 (c_cos m) False"

definition math_tan :: "libm \<Rightarrow> pyval \<Rightarrow> pyexc + pyval" where
  "math_tan m = math_1 (c_tan m) False"

definition math_log :: "libm \<Rightarrow> pyval \<Rightarrow> pyexc + pyval" where
  "math_log m = math_1 (m_log m) False"

definition math_log10 :: "libm \<Rightarrow> pyval \<Rightarrow> pyexc + pyval" where
  "math_log10 m = math_1 (m_log10 m) False"

text \<open>\<^verbatim>\<open>math.pi\<close> and \<^verbatim>\<open>math.e\<close>: the binary64 numbers nearest to \<open>\<pi>\<close> and \<open>e\<close>.\<close>

definition math_pi :: pyfloat where
  "math_pi = Finite (884279719003555 / 2 ^ 48)"

definition math_e :: pyfloat where
  "math_e = Finite (6121026514868073 / 2 ^ 51)"

subsection \<open>The power operator\<close>

definition float_is_integer :: "pyfloat \<Rightarrow> bool" where
  "float_is_integer x = (case x of Finite q \<Rightarrow> of_int \<lfloor>q\<rfloor> = q | _ \<Rightarrow> False)"

definition complex_pow :: "libm \<Rightarrow> pyfloat \<times> pyfloat \<Rightarrow> pyfloat \<times> pyfloat \<Rightarrow> pyexc + pyval" where
  "complex_pow m a b =
     (case libm_cpow m a b of
        CPowValue re im \<Rightarrow> Inr (PyComplex re im)
      | CPowZeroDivision \<Rightarrow> Inl ZeroDivisionError
      | CPowOverflow \<Rightarrow> Inl (OverflowError (Text ''complex exponentiation'')))"

text \<open>
  \<^verbatim>\<open>**\<close> on floats, CPython's \<^verbatim>\<open>float_pow\<close>, case by case in its order. A negative base
  with an exponent that is not an integer is handed to the complex power. The last case
  calls C's \<^verbatim>\<open>pow\<close> on a positive base other than 1 and a finite non-zero exponent; an
  infinite result there is \<^verbatim>\<open>OverflowError\<close>.
\<close>

definition float_pow :: "libm \<Rightarrow> pyfloat \<Rightarrow> pyfloat \<Rightarrow> pyexc + pyval" where
  "float_pow m iv iw =
     (if float_is_zero iw then Inr (PyFloat (Finite 1))
      else if float_isnan iv then Inr (PyFloat iv)
      else if float_isnan iw then Inr (PyFloat (if iv = Finite 1 then Finite 1 else iw))
      else if float_isinf iw then
        (let av = float_abs iv in
         if av = Finite 1 then Inr (PyFloat (Finite 1))
         else if float_lt (Finite 0) iw = float_lt (Finite 1) av then Inr (PyFloat (float_abs iw))
         else Inr (PyFloat (Finite 0)))
      else if float_isinf iv then
        (if float_lt (Finite 0) iw
         then Inr (PyFloat (if double_is_odd_integer iw then iv else float_abs iv))
         else Inr (PyFloat (Finite 0)))
      else if float_is_zero iv then
        (if float_lt iw (Finite 0) then Inl ZeroDivisionError else Inr (PyFloat (Finite 0)))
      else if float_is_negative iv \<and> \<not> float_is_integer iw then
        complex_pow m (iv, Finite 0) (iw, Finite 0)
      else
        (let negate_result = (float_is_negative iv \<and> double_is_odd_integer iw);
             av = float_abs iv
         in if av = Finite 1 then Inr (PyFloat (if negate_result then Finite (- 1) else Finite 1))
            else
              (case (av, iw) of
                 (Finite x, Finite y) \<Rightarrow>
                   let ix = libm_pow m x y in
                   if float_isinf ix then Inl (OverflowError (Text ''Numerical result out of range''))
                   else Inr (PyFloat (if negate_result then float_neg ix else ix))
               | _ \<Rightarrow> Inr (PyFloat NaN))))"

fun py_pow :: "libm \<Rightarrow> pyval \<Rightarrow> pyval \<Rightarrow> pyexc + pyval" where
  "py_pow m (PyFloat x) (PyFloat y) = float_pow m x y"
| "py_pow m a b = complex_pow m (as_complex a) (as_complex b)"

text \<open>\<^verbatim>\<open>float(n)\<close> of an integer: the nearest float, or \<^verbatim>\<open>OverflowError\<close> when that would
  be an infinity.\<close>

definition float_of_int :: "int \<Rightarrow> pyexc + pyfloat" where
  "float_of_int n =
     (case round_double (of_int n) of
        Finite q \<Rightarrow> Inr (Finite q)
      | _ \<Rightarrow> Inl (OverflowError (Text ''int too large to convert to float'')))"

fun pyval_is_zero :: "pyval \<Rightarrow> bool" where
  "pyval_is_zero (PyFloat x) = float_is_zero x"
| "pyval_is_zero (PyComplex re im) = (float_is_zero re \<and> float_is_zero im)"

section \<open>The abstract syntax tree\<close>

text \<open>
  The expression nodes of Python's \<^verbatim>\<open>ast\<close> module that \<^verbatim>\<open>_eval_node\<close> looks into, with
  their fields. Every other node class (\<^verbatim>\<open>List\<close>, \<^verbatim>\<open>Compare\<close>, \<^verbatim>\<open>BoolOp\<close>, \<^verbatim>\<open>Lambda\<close>,
  \<^verbatim>\<open>Starred\<close>, ...) is \<open>OtherNode\<close> with its class name: the evaluator reads nothing
  else of it.
\<close>

datatype constant_value =
    IntValue int
  | BoolValue bool
  | FloatValue pyfloat
  | ComplexValue pyfloat pyfloat
  | StrValue string
  | BytesValue string
  | NoneValue
  | EllipsisValue

datatype unaryop = UAdd | USub | Not | Invert

datatype operator =
    Add | Sub | Mult | MatMult | Div | Mod | Pow
  | LShift | RShift | BitOr | BitXor | BitAnd | FloorDiv

datatype node =
    Constant constant_value
  | UnaryOp unaryop node
  | BinOp node operator node
  | Call node "node list" "keyword list"
  | Name string
  | Attribute node string
  | OtherNode string
and keyword = Keyword "string option" node

text \<open>\<^verbatim>\<open>type(x).__name__\<close> for the values and operators the messages name.\<close>

fun constant_type_name :: "constant_value \<Rightarrow> string" where
  "constant_type_name (IntValue _) = ''int''"
| "constant_type_name (BoolValue _) = ''bool''"
| "constant_type_name (FloatValue _) = ''float''"
| "constant_type_name (ComplexValue _ _) = ''complex''"
| "constant_type_name (StrValue _) = ''str''"
| "constant_type_name (BytesValue _) = ''bytes''"
| "constant_type_name NoneValue = ''NoneType''"
| "constant_type_name EllipsisValue = ''ellipsis''"

fun unaryop_name :: "unaryop \<Rightarrow> string" where
  "unaryop_name UAdd = ''UAdd''"
| "unaryop_name USub = ''USub''"
| "unaryop_name Not = ''Not''"
| "unaryop_name Invert = ''Invert''"

fun operator_name :: "operator \<Rightarrow> string" where
  "operator_name Add = ''Add''"
| "operator_name Sub = ''Sub''"
| "operator_name Mult = ''Mult''"
| "operator_name MatMult = ''MatMult''"
| "operator_name Div = ''Div''"
| "operator_name Mod = ''Mod''"
| "operator_name Pow = ''Pow''"
| "operator_name LShift = ''LShift''"
| "operator_name RShift = ''RShift''"
| "operator_name BitOr = ''BitOr''"
| "operator_name BitXor = ''BitXor''"
| "operator_name BitAnd = ''BitAnd''"
| "operator_name FloorDiv = ''FloorDiv''"

section \<open>SafeExpressionEvaluator\<close>

text \<open>
  The object's attributes (lines 20 to 32): the math module and the two whitelist
  dictionaries. The methods take the object and return it with their result, so that a
  mutation of the object, if there were one, would show in the returned state.
\<close>

record evaluator =
  math_module :: libm
  allowed_functions :: "string \<rightharpoonup> (pyval \<Rightarrow> pyexc + pyval)"
  allowed_names :: "string \<rightharpoonup> pyfloat"

definition SafeExpressionEvaluator :: "libm \<Rightarrow> evaluator" where
  "SafeExpressionEvaluator m =
     \<lparr> math_module = m,
       allowed_functions =
         [''sqrt'' \<mapsto> math_sqrt m,
          ''sin'' \<mapsto> math_sin m,
          ''cos'' \<mapsto> math_cos m,
          ''tan'' \<mapsto> math_tan m,
          ''log'' \<mapsto> math_log m,
          ''log10'' \<mapsto> math_log10 m],
       allowed_names = [''pi'' \<mapsto> math_pi, ''e'' \<mapsto> math_e] \<rparr>"

text \<open>The operators of lines 80 to 93, applied to the two values.\<close>

fun apply_operator :: "libm \<Rightarrow> operator \<Rightarrow> pyval \<Rightarrow> pyval \<Rightarrow> pyexc + pyval" where
  "apply_operator m Add left right = py_add left right"
| "apply_operator m Sub left right = py_sub left right"
| "apply_operator m Mult left right = py_mul left right"
| "apply_operator m Div left right = py_truediv left right"
| "apply_operator m Mod left right = py_mod left right"
| "apply_operator m Pow left right = py_pow m left right"
| "apply_operator m op left right = Inl (ValueError (UnsupportedBinaryOperator (operator_name op)))"

text \<open>
  \<^verbatim>\<open>_eval_node\<close> (lines 56 to 138). The first argument is the host's C library, which
  Python's \<^verbatim>\<open>**\<close> uses. The recursion limit of the interpreter is not modelled.
\<close>

fun eval_node :: "libm \<Rightarrow> evaluator \<Rightarrow> node \<Rightarrow> (pyexc + pyval) \<times> evaluator" where
  "eval_node m self (Constant v) =
     (case v of
        IntValue n \<Rightarrow> (map_sum id PyFloat (float_of_int n), self)
      | BoolValue b \<Rightarrow> (map_sum id PyFloat (float_of_int (if b then 1 else 0)), self)
      | FloatValue x \<Rightarrow> (Inr (PyFloat x), self)
      | _ \<Rightarrow> (Inl (ValueError (UnsupportedConstantType (constant_type_name v))), self))"
| "eval_node m self (UnaryOp op operand) =
     (case eval_node m self operand of
        (Inl e, self') \<Rightarrow> (Inl e, self')
      | (Inr v, self') \<Rightarrow>
          (case op of
             UAdd \<Rightarrow> (Inr (py_pos v), self')
           | USub \<Rightarrow> (Inr (py_neg v), self')
           | _ \<Rightarrow> (Inl (ValueError (UnsupportedUnaryOperator (unaryop_name op))), self')))"
| "eval_node m self (BinOp left op right) =
     (case eval_node m self left of
        (Inl e, self') \<Rightarrow> (Inl e, self')
      | (Inr l, self') \<Rightarrow>
          (case eval_node m self' right of
             (Inl e, self'') \<Rightarrow> (Inl e, self'')
           | (Inr r, self'') \<Rightarrow> (apply_operator m op l r, self'')))"
| "eval_node m self (Call func args keywords) =
     (case (case func of
              Name fid \<Rightarrow> Inr fid
            | Attribute value attr \<Rightarrow>
                (case value of
                   Name vid \<Rightarrow>
                     if vid = ''math'' then
                       (if allowed_functions self attr = None
                        then Inl (ValueError (UnsupportedFunction attr))
                        else Inr attr)
                     else Inl (ValueError (UnsupportedAttributeAccess attr))
                 | _ \<Rightarrow> Inl (ValueError (UnsupportedAttributeAccess attr)))
            | _ \<Rightarrow> Inl (ValueError UnsupportedCallFormat)) of
        Inl e \<Rightarrow> (Inl e, self)
      | Inr func_name \<Rightarrow>
          if allowed_functions self func_name = None
          then (Inl (ValueError (UnsupportedFunction func_name)), self)
          else
            (case args of
               [arg0] \<Rightarrow>
                 if keywords \<noteq> [] then (Inl (ValueError KeywordArgumentsNotSupported), self)
                 else
                   (case eval_node m self arg0 of
                      (Inl e, self') \<Rightarrow> (Inl e, self')
                    | (Inr arg, self') \<Rightarrow>
                        (case allowed_functions self' func_name of
                           Some f \<Rightarrow> (f arg, self')
                         | None \<Rightarrow> (Inl (OtherException ''KeyError'' (Text func_name)), self')))
             | _ \<Rightarrow> (Inl (ValueError (FunctionNeedsOneArgument func_name)), self)))"
| "eval_node m self (Name ident) =
     (case allowed_names self ident of
        Some x \<Rightarrow> (Inr (PyFloat x), self)
      | None \<Rightarrow> (Inl (ValueError (UndefinedName ident)), self))"
| "eval_node m self (Attribute value attr) =
     (Inl (ValueError (UnsupportedNodeType ''Attribute'')), self)"
| "eval_node m self (OtherNode kind) =
     (Inl (ValueError (UnsupportedNodeType kind)), self)"

text \<open>
  The handlers of \<^verbatim>\<open>eval\<close> (lines 45 to 54), in their order: the exception that the body
  raised becomes the \<^verbatim>\<open>ValueError\<close> that \<^verbatim>\<open>eval\<close> raises.
\<close>

fun eval_handlers :: "pyexc + pyval \<Rightarrow> pyexc + pyval" where
  "eval_handlers (Inr v) = Inr v"
| "eval_handlers (Inl ZeroDivisionError) = Inl (ValueError DivisionByZeroMessage)"
| "eval_handlers (Inl SyntaxError) = Inl (ValueError SyntaxErrorMessage)"
| "eval_handlers (Inl TypeError) = Inl (ValueError SyntaxErrorMessage)"
| "eval_handlers (Inl (ValueError msg)) =
     (if mentions_math_domain_error msg then Inl (ValueError MathDomainErrorMessage)
      else Inl (ValueError msg))"
| "eval_handlers (Inl (OverflowError msg)) = Inl (ValueError (ErrorPrefixed msg))"
| "eval_handlers (Inl (OtherException cls msg)) = Inl (ValueError (ErrorPrefixed msg))"

text \<open>Line 41: \<^verbatim>\<open>expression.replace('^', '**')\<close>.\<close>

fun replace_caret :: "string \<Rightarrow> string" where
  "replace_caret [] = []"
| "replace_caret (c # cs) =
     (if c = CHR ''^'' then ''**'' @ replace_caret cs else c # replace_caret cs)"

text \<open>
  \<^verbatim>\<open>eval\<close> (lines 34 to 54). \<^verbatim>\<open>ast.parse(expression, mode='eval')\<close> is the host's parser
  and a parameter: it returns the body of the parsed expression or raises.
\<close>

definition evaluator_eval ::
  "(string \<Rightarrow> pyexc + node) \<Rightarrow> libm \<Rightarrow> evaluator \<Rightarrow> string \<Rightarrow> (pyexc + pyval) \<times> evaluator" where
  "evaluator_eval ast_parse m self expression =
     (let expression' = replace_caret expression in
      case ast_parse expression' of
        Inl e \<Rightarrow> (eval_handlers (Inl e), self)
      | Inr body \<Rightarrow>
          (case eval_node m self body of (r, self') \<Rightarrow> (eval_handlers r, self')))"

text \<open>
  The constructs of the claims on the restricted grammar: a node is outside the whitelist
  when it, or an operand or argument of it, is a literal other than a number, an
  operator other than the six binary and two unary ones, a call through anything but a
  name or the \<^verbatim>\<open>math.\<close> prefix, an attribute access, or any other node class.
\<close>

fun outside_whitelist :: "node \<Rightarrow> bool" where
  "outside_whitelist (Constant v) =
     (case v of IntValue _ \<Rightarrow> False | BoolValue _ \<Rightarrow> False | FloatValue _ \<Rightarrow> False | _ \<Rightarrow> True)"
| "outside_whitelist (UnaryOp op operand) =
     ((op \<noteq> UAdd \<and> op \<noteq> USub) \<or> outside_whitelist operand)"
| "outside_whitelist (BinOp left op right) =
     (op \<notin> {Add, Sub, Mult, Div, Mod, Pow} \<or> outside_whitelist left \<or> outside_whitelist right)"
| "outside_whitelist (Call func args keywords) =
     ((case func of Name _ \<Rightarrow> False | Attribute q _ \<Rightarrow> q \<noteq> Name ''math'' | _ \<Rightarrow> True)
      \<or> list_ex outside_whitelist args)"
| "outside_whitelist (Name _) = False"
| "outside_whitelist (Attribute _ _) = True"
| "outside_whitelist (OtherNode _) = True"

section \<open>Calculator.format\_result\<close>

text \<open>\<^verbatim>\<open>str(n)\<close> of an integer: its decimal digits, after a minus sign when negative.\<close>

definition digit_char :: "nat \<Rightarrow> char" where
  "digit_char d = char_of (48 + d)"

fun digits_of :: "nat \<Rightarrow> string" where
  "digits_of n = (if n < 10 then [digit_char n] else digits_of (n div 10) @ [digit_char (n mod 10)])"

declare digits_of.simps [simp del]

definition str_int :: "int \<Rightarrow> string" where
  "str_int n = (if n < 0 then CHR ''-'' # digits_of (nat (- n)) else digits_of (nat n))"

text \<open>Reading a decimal numeral back.\<close>

definition digit_value :: "char \<Rightarrow> nat" where
  "digit_value c = of_char c - 48"

definition is_digit :: "char \<Rightarrow> bool" where
  "is_digit c = (48 \<le> (of_char c :: nat) \<and> (of_char c :: nat) \<le> 57)"

definition decimal_value :: "string \<Rightarrow> nat" where
  "decimal_value ds = foldl (\<lambda>acc c. 10 * acc + digit_value c) 0 ds"

definition int_of_str :: "string \<Rightarrow> int" where
  "int_of_str s =
     (case s of
        c # cs \<Rightarrow> if c = CHR ''-'' then - int (decimal_value cs) else int (decimal_value s)
      | [] \<Rightarrow> 0)"

text \<open>\<^verbatim>\<open>round(x)\<close> of a float: the nearest integer, ties to even; an infinity or NaN
  raises.\<close>

definition py_round :: "pyfloat \<Rightarrow> pyexc + int" where
  "py_round x =
     (case x of
        Finite q \<Rightarrow> Inr (round_half_even q)
      | NaN \<Rightarrow> Inl (ValueError (Text ''cannot convert float NaN to integer''))
      | _ \<Rightarrow> Inl (OverflowError (Text ''cannot convert float infinity to integer'')))"

text \<open>\<^verbatim>\<open>int(x)\<close> of a float: truncation towards zero; an infinity or NaN raises.\<close>

definition int_of_float :: "pyfloat \<Rightarrow> pyexc + int" where
  "int_of_float x =
     (case x of
        Finite q \<Rightarrow> Inr (rat_trunc q)
      | NaN \<Rightarrow> Inl (ValueError (Text ''cannot convert float NaN to integer''))
      | _ \<Rightarrow> Inl (OverflowError (Text ''cannot convert float infinity to integer'')))"

text \<open>The literals \<^verbatim>\<open>1e-10\<close>, \<^verbatim>\<open>1e6\<close> and \<^verbatim>\<open>1e-4\<close>: the binary64 numbers nearest to them.\<close>

definition double_1e_10 :: pyfloat where
  "double_1e_10 = Finite (7737125245533627 / 2 ^ 86)"

definition double_1e6 :: pyfloat where
  "double_1e6 = Finite 1000000"

definition double_1e_4 :: pyfloat where
  "double_1e_4 = Finite (7378697629483821 / 2 ^ 66)"

text \<open>
  \<^verbatim>\<open>format_result\<close> (lines 240 to 254). \<open>format_float spec x\<close> is the host's
  \<^verbatim>\<open>format(x, spec)\<close>, the text that the f-strings of lines 252 and 254 produce.
  \<^verbatim>\<open>result - round(result)\<close> converts the integer to a float and subtracts in binary64.
\<close>

definition format_result :: "(string \<Rightarrow> pyfloat \<Rightarrow> string) \<Rightarrow> pyfloat \<Rightarrow> pyexc + string" where
  "format_result format_float result =
     (if float_is_integer result then
        (case int_of_float result of Inl e \<Rightarrow> Inl e | Inr n \<Rightarrow> Inr (str_int n))
      else
        case py_round result of
          Inl e \<Rightarrow> Inl e
        | Inr n \<Rightarrow>
            (case float_of_int n of
               Inl e \<Rightarrow> Inl e
             | Inr y \<Rightarrow>
                 if float_lt (float_abs (ieee_sub result y)) double_1e_10 then Inr (str_int n)
                 else if float_le double_1e6 (float_abs result) \<or> float_le (float_abs result) double_1e_4
                 then Inr (format_float ''.6e'' result)
                 else Inr (format_float ''.8g'' result)))"

section \<open>Recorded values of one host\<close>

text \<open>
  The theorems below hold for every C library and every parser. To run the examples, the
  results of one host (CPython 3.11 on Linux) are recorded at the arguments the examples
  use: \<^verbatim>\<open>pow(2, 10)\<close>, \<^verbatim>\<open>sqrt(16)\<close>, \<^verbatim>\<open>tan(pi/2)\<close> (which is 1.633123935319537e+16),
  \<^verbatim>\<open>(-8) ** 0.5\<close>, and \<^verbatim>\<open>ast.parse\<close> of the example texts. Outside these arguments the
  recorded library returns NaN and the recorded parser raises \<^verbatim>\<open>NotImplementedError\<close>.
\<close>

definition recorded_libm :: libm where
  "recorded_libm =
     \<lparr> libm_sqrt = (\<lambda>q. if q = 16 then Finite 4 else NaN),
       libm_sin = (\<lambda>q. NaN),
       libm_cos = (\<lambda>q. NaN),
       libm_tan = (\<lambda>q. if q = 884279719003555 / 2 ^ 49 then Finite 16331239353195370 else NaN),
       libm_log = (\<lambda>q. NaN),
       libm_log10 = (\<lambda>q. NaN),
       libm_pow = (\<lambda>x y. if x = 2 \<and> y = 10 then Finite 1024 else NaN),
       libm_cpow = (\<lambda>a b.
         if a = (Finite (- 8), Finite 0) \<and> b = (Finite (1 / 2), Finite 0)
         then CPowValue (Finite (7025470172532439 / 2 ^ 105)) (Finite (6369051672525773 / 2 ^ 51))
         else CPowValue NaN NaN) \<rparr>"

definition recorded_parses :: "(string \<times> (pyexc + node)) list" where
  "recorded_parses =
     [(''1/0'', Inr (BinOp (Constant (IntValue 1)) Div (Constant (IntValue 0)))),
      (''5 % 0'', Inr (BinOp (Constant (IntValue 5)) Mod (Constant (IntValue 0)))),
      (''2**10'', Inr (BinOp (Constant (IntValue 2)) Pow (Constant (IntValue 10)))),
      (''sqrt(-4)'',
         Inr (Call (Name ''sqrt'') [UnaryOp USub (Constant (IntValue 4))] [])),
      (''tan(1e999)'', Inr (Call (Name ''tan'') [Constant (FloatValue PInf)] [])),
      (''tan(pi/2)'',
         Inr (Call (Name ''tan'') [BinOp (Name ''pi'') Div (Constant (IntValue 2))] [])),
      (''sqrt(1,2)'',
         Inr (Call (Name ''sqrt'') [Constant (IntValue 1), Constant (IntValue 2)] [])),
      (''sqrt(1, x=2)'',
         Inr (Call (Name ''sqrt'') [Constant (IntValue 1)]
                [Keyword (Some ''x'') (Constant (IntValue 2))])),
      (''sqrt(16)'', Inr (Call (Name ''sqrt'') [Constant (IntValue 16)] [])),
      (''math.sqrt(16)'',
         Inr (Call (Attribute (Name ''math'') ''sqrt'') [Constant (IntValue 16)] [])),
      (''os.sqrt(16)'',
         Inr (Call (Attribute (Name ''os'') ''sqrt'') [Constant (IntValue 16)] [])),
      (''(-8)**0.5'',
         Inr (BinOp (UnaryOp USub (Constant (IntValue 8))) Pow
                (Constant (FloatValue (Finite (1 / 2)))))),
      (''((-8)**0.5) % 0'',
         Inr (BinOp (BinOp (UnaryOp USub (Constant (IntValue 8))) Pow
                       (Constant (FloatValue (Finite (1 / 2)))))
                Mod (Constant (IntValue 0)))),
      (''[1]'', Inr (OtherNode ''List'')),
      (''1 < 2'', Inr (OtherNode ''Compare'')),
      (''not 1'', Inr (UnaryOp Not (Constant (IntValue 1)))),
      (''1 // 2'', Inr (BinOp (Constant (IntValue 1)) FloorDiv (Constant (IntValue 2)))),
      (''math.pi'', Inr (Attribute (Name ''math'') ''pi'')),
      (''1/0 + [1]'',
         Inr (BinOp (BinOp (Constant (IntValue 1)) Div (Constant (IntValue 0))) Add
                (OtherNode ''List''))),
      (''1e999'', Inr (Constant (FloatValue PInf))),
      (''x = 1'', Inl SyntaxError),
      (''1; 2'', Inl SyntaxError)]"

definition recorded_parse :: "string \<Rightarrow> pyexc + node" where
  "recorded_parse s =
     (case map_of recorded_parses s of
        Some r \<Rightarrow> r
      | None \<Rightarrow> Inl (OtherException ''NotImplementedError'' (Text s)))"

definition recorded_format :: "string \<Rightarrow> pyfloat \<Rightarrow> string" where
  "recorded_format spec x =
     (if spec = ''.8g'' \<and> x = Finite (5 / 2) then ''2.5''
      else if spec = ''.6e'' \<and> x = Finite (2469135 / 2) then ''1.234568e+06''
      else [])"

section \<open>Properties of the evaluator\<close>

subsection \<open>The evaluator leaves the object as it found it\<close>

lemma eval_node_self: "snd (eval_node m self n) = self"
proof (induction m self n rule: eval_node.induct)
  case (1 m self v)
  then show ?case by (cases v) simp_all
next
  case (2 m self op operand)
  then show ?case
    by (cases "eval_node m self operand"; cases "fst (eval_node m self operand)"; cases op) simp_all
next
  case (3 m self left op right)
  show ?case
  proof (cases "eval_node m self left")
    case (Pair r1 s1)
    with 3(1) have s1: "s1 = self" by simp
    show ?thesis
    proof (cases r1)
      case (Inl e)
      with Pair s1 show ?thesis by simp
    next
      case (Inr l)
      from 3(2)[OF Pair[symmetric] Inr] have "snd (eval_node m s1 right) = s1" .
      with Pair Inr s1 show ?thesis
        by (cases "eval_node m self right"; cases "fst (eval_node m self right)") simp_all
    qed
  qed
next
  case (4 m self func args kws)
  then show ?case
    by (fastforce split: prod.splits sum.splits node.splits list.splits option.splits if_splits)
qed (simp_all split: option.splits)

lemma eval_node_pair: "eval_node m self n = (fst (eval_node m self n), self)"
  by (metis eval_node_self prod.collapse)

lemma fst_eval_UnaryOp:
  "fst (eval_node m self (UnaryOp op operand)) =
     (case fst (eval_node m self operand) of
        Inl e \<Rightarrow> Inl e
      | Inr v \<Rightarrow>
          (case op of
             UAdd \<Rightarrow> Inr (py_pos v)
           | USub \<Rightarrow> Inr (py_neg v)
           | _ \<Rightarrow> Inl (ValueError (UnsupportedUnaryOperator (unaryop_name op)))))"
  by (subst eval_node.simps, subst eval_node_pair [of m self operand])
     (simp split: sum.splits unaryop.splits)

lemma fst_eval_BinOp:
  "fst (eval_node m self (BinOp left op right)) =
     (case fst (eval_node m self left) of
        Inl e \<Rightarrow> Inl e
      | Inr l \<Rightarrow>
          (case fst (eval_node m self right) of
             Inl e \<Rightarrow> Inl e
           | Inr r \<Rightarrow> apply_operator m op l r))"
proof -
  obtain r1 where l: "eval_node m self left = (r1, self)"
    by (metis eval_node_pair)
  obtain r2 where r: "eval_node m self right = (r2, self)"
    by (metis eval_node_pair)
  from l r show ?thesis by (simp split: sum.splits)
qed

lemma fst_eval_Call_Name:
  "fst (eval_node m self (Call (Name f) args kws)) =
     (case allowed_functions self f of
        None \<Rightarrow> Inl (ValueError (UnsupportedFunction f))
      | Some g \<Rightarrow>
          (case args of
             [arg0] \<Rightarrow>
               if kws \<noteq> [] then Inl (ValueError KeywordArgumentsNotSupported)
               else (case fst (eval_node m self arg0) of Inl e \<Rightarrow> Inl e | Inr v \<Rightarrow> g v)
           | _ \<Rightarrow> Inl (ValueError (FunctionNeedsOneArgument f))))"
proof (cases args)
  case Nil
  then show ?thesis by (simp split: option.splits)
next
  case (Cons a as)
  obtain r where a: "eval_node m self a = (r, self)"
    by (metis eval_node_pair)
  from Cons a show ?thesis
    by (cases as) (simp_all split: sum.splits option.splits)
qed

lemma eval_node_math_sugar:
  "eval_node m self (Call (Attribute (Name ''math'') f) args kws) =
   eval_node m self (Call (Name f) args kws)"
  by (simp split: option.splits)

lemma eval_node_other_qualifier:
  "q \<noteq> Name ''math'' \<Longrightarrow>
   eval_node m self (Call (Attribute q f) args kws) =
     (Inl (ValueError (UnsupportedAttributeAccess f)), self)"
  by (cases q) simp_all


lemma fst_eval_Constant:
  "fst (eval_node m self (Constant v)) =
     (case v of
        IntValue n \<Rightarrow> map_sum id PyFloat (float_of_int n)
      | BoolValue b \<Rightarrow> map_sum id PyFloat (float_of_int (if b then 1 else 0))
      | FloatValue x \<Rightarrow> Inr (PyFloat x)
      | _ \<Rightarrow> Inl (ValueError (UnsupportedConstantType (constant_type_name v))))"
  by (cases v) simp_all

lemma fst_eval_Name:
  "fst (eval_node m self (Name ident)) =
     (case allowed_names self ident of
        Some x \<Rightarrow> Inr (PyFloat x)
      | None \<Rightarrow> Inl (ValueError (UndefinedName ident)))"
  by (simp split: option.splits)

lemma fst_eval_other:
  "fst (eval_node m self (Attribute value attr)) = Inl (ValueError (UnsupportedNodeType ''Attribute''))"
  "fst (eval_node m self (OtherNode kind)) = Inl (ValueError (UnsupportedNodeType kind))"
  by simp_all

declare eval_node.simps [simp del]

lemmas fst_eval_node =
  fst_eval_Constant fst_eval_UnaryOp fst_eval_BinOp fst_eval_Call_Name fst_eval_Name fst_eval_other

lemma float_of_int_small:
  "float_of_int 0 = Inr (Finite 0)" "float_of_int 1 = Inr (Finite 1)"
  "float_of_int 2 = Inr (Finite 2)" "float_of_int 4 = Inr (Finite 4)"
  "float_of_int 5 = Inr (Finite 5)" "float_of_int 8 = Inr (Finite 8)"
  "float_of_int 10 = Inr (Finite 10)" "float_of_int 16 = Inr (Finite 16)"
  by code_simp+

lemma py_truediv_zero: "pyval_is_zero r \<Longrightarrow> py_truediv l r = Inl ZeroDivisionError"
  by (cases l; cases r) (auto simp: float_is_zero_def c_quot_def)

lemma fst_evaluator_eval:
  "fst (evaluator_eval ast_parse m self s) =
     eval_handlers (case ast_parse (replace_caret s) of
                      Inl e \<Rightarrow> Inl e
                    | Inr body \<Rightarrow> fst (eval_node m self body))"
  by (simp add: evaluator_eval_def split: sum.splits prod.splits)

subsection \<open>Division by zero\<close>

text \<open>
  Claim C4. Whenever the operator \<^verbatim>\<open>/\<close> is applied, that is whenever the left operand has
  evaluated to a value and the right operand to a zero (the float zero or the complex
  zero), \<^verbatim>\<open>_eval_node\<close> raises \<^verbatim>\<open>ZeroDivisionError\<close>, which \<^verbatim>\<open>eval\<close> reports with
  its division-by-zero message; no infinity or NaN is returned. In particular the text
  \<^verbatim>\<open>1/0\<close>, which the parser turns into the division of the constants 1 and 0, fails
  with that message.
\<close>

theorem division_by_zero:
  "(fst (eval_node m self left) = Inr l \<and> fst (eval_node m self right) = Inr r \<and> pyval_is_zero r
      \<longrightarrow> fst (eval_node m self (BinOp left Div right)) = Inl ZeroDivisionError
        \<and> eval_handlers (fst (eval_node m self (BinOp left Div right))) =
            Inl (ValueError DivisionByZeroMessage))
   \<and> (ast_parse ''1/0'' = Inr (BinOp (Constant (IntValue 1)) Div (Constant (IntValue 0)))
      \<longrightarrow> fst (evaluator_eval ast_parse m self ''1/0'') = Inl (ValueError DivisionByZeroMessage))"
  by (simp add: fst_eval_node py_truediv_zero fst_evaluator_eval float_of_int_small float_is_zero_def)

theorem division_by_zero_witness:
  "fst (eval_node recorded_libm (SafeExpressionEvaluator recorded_libm) (Constant (IntValue 1))) =
     Inr (PyFloat (Finite 1))
   \<and> fst (eval_node recorded_libm (SafeExpressionEvaluator recorded_libm) (Constant (IntValue 0))) =
     Inr (PyFloat (Finite 0))
   \<and> pyval_is_zero (PyFloat (Finite 0))
   \<and> recorded_parse ''1/0'' = Inr (BinOp (Constant (IntValue 1)) Div (Constant (IntValue 0)))
   \<and> fst (eval_node recorded_libm (SafeExpressionEvaluator recorded_libm)
            (BinOp (Constant (IntValue 1)) Div (Constant (IntValue 0)))) = Inl ZeroDivisionError
   \<and> fst (evaluator_eval recorded_parse recorded_libm (SafeExpressionEvaluator recorded_libm) ''1/0'') =
       Inl (ValueError DivisionByZeroMessage)"
proof -
  let ?ev = "SafeExpressionEvaluator recorded_libm"
  have h1: "fst (eval_node recorded_libm ?ev (Constant (IntValue 1))) = Inr (PyFloat (Finite 1))"
    by (simp add: fst_eval_node float_of_int_small)
  have h2: "fst (eval_node recorded_libm ?ev (Constant (IntValue 0))) = Inr (PyFloat (Finite 0))"
    by (simp add: fst_eval_node float_of_int_small)
  have h3: "pyval_is_zero (PyFloat (Finite 0))"
    by (simp add: float_is_zero_def)
  have h4: "recorded_parse ''1/0'' = Inr (BinOp (Constant (IntValue 1)) Div (Constant (IntValue 0)))"
    by (simp add: recorded_parse_def recorded_parses_def)
  from h1 h2 h3 h4
    division_by_zero [of recorded_libm ?ev "Constant (IntValue 1)" "PyFloat (Finite 1)"
      "Constant (IntValue 0)" "PyFloat (Finite 0)" recorded_parse]
  show ?thesis by blast
qed

subsection \<open>Domain errors of the functions\<close>

lemma mentions_math_domain_error_text: "mentions_math_domain_error (Text ''math domain error'')"
  by code_simp

lemma eval_handlers_domain_error:
  "eval_handlers (Inl (ValueError (Text ''math domain error''))) = Inl (ValueError MathDomainErrorMessage)"
  by (simp add: mentions_math_domain_error_text)

lemma allowed_functions_lookup:
  "allowed_functions (SafeExpressionEvaluator m) ''sqrt'' = Some (math_sqrt m)"
  "allowed_functions (SafeExpressionEvaluator m) ''sin'' = Some (math_sin m)"
  "allowed_functions (SafeExpressionEvaluator m) ''cos'' = Some (math_cos m)"
  "allowed_functions (SafeExpressionEvaluator m) ''tan'' = Some (math_tan m)"
  "allowed_functions (SafeExpressionEvaluator m) ''log'' = Some (math_log m)"
  "allowed_functions (SafeExpressionEvaluator m) ''log10'' = Some (math_log10 m)"
  by (simp_all add: SafeExpressionEvaluator_def)

lemma whitelisted_function_names:
  "allowed_functions (SafeExpressionEvaluator m) f \<noteq> None \<longleftrightarrow>
     f \<in> {''sqrt'', ''sin'', ''cos'', ''tan'', ''log'', ''log10''}"
  by (auto simp: SafeExpressionEvaluator_def)

lemma math_sqrt_negative:
  "float_is_negative x \<Longrightarrow> math_sqrt m (PyFloat x) = Inl (ValueError (Text ''math domain error''))"
  by (cases x) (auto simp: math_sqrt_def math_1_def float_is_negative_def)

lemma math_log_nonpositive:
  "float_le x (Finite 0) \<Longrightarrow> math_log m (PyFloat x) = Inl (ValueError (Text ''math domain error''))"
  by (cases x) (auto simp: math_log_def math_1_def)

lemma math_log10_nonpositive:
  "float_le x (Finite 0) \<Longrightarrow> math_log10 m (PyFloat x) = Inl (ValueError (Text ''math domain error''))"
  by (cases x) (auto simp: math_log10_def math_1_def)

lemma math_tan_infinite:
  "float_isinf x \<Longrightarrow> math_tan m (PyFloat x) = Inl (ValueError (Text ''math domain error''))"
  by (cases x) (simp_all add: math_tan_def math_1_def)

lemma math_tan_finite:
  "float_isfinite (libm_tan m q) \<Longrightarrow>
   math_tan m (PyFloat (Finite q)) = Inr (PyFloat (libm_tan m q))"
  by (cases "libm_tan m q") (simp_all add: math_tan_def math_1_def)

lemma allowed_names_lookup:
  "allowed_names (SafeExpressionEvaluator m) ''pi'' = Some math_pi"
  "allowed_names (SafeExpressionEvaluator m) ''e'' = Some math_e"
  by (simp_all add: SafeExpressionEvaluator_def)

lemma half_pi: "ieee_div math_pi (Finite 2) = Finite (884279719003555 / 2 ^ 49)"
  unfolding math_pi_def by code_simp

lemma eval_half_pi:
  "fst (eval_node m (SafeExpressionEvaluator m) (BinOp (Name ''pi'') Div (Constant (IntValue 2)))) =
     Inr (PyFloat (Finite (884279719003555 / 2 ^ 49)))"
  by (simp add: fst_eval_node allowed_names_lookup float_of_int_small float_is_zero_def half_pi)

text \<open>
  Claim C1, as amended. Let the argument of a call evaluate to the float \<open>x\<close>. Then
  \<^verbatim>\<open>sqrt\<close> of a negative \<open>x\<close>, \<^verbatim>\<open>log\<close> and \<^verbatim>\<open>log10\<close> of an \<open>x \<le> 0\<close>, and \<^verbatim>\<open>tan\<close> of an
  infinite \<open>x\<close> raise \<^verbatim>\<open>ValueError("math domain error")\<close>, which \<^verbatim>\<open>eval\<close> reports with
  its domain-error message; in particular the text \<^verbatim>\<open>sqrt(-4)\<close> fails with that message.
  At a finite \<open>x\<close> the tangent does not fail: the call returns the tangent that the C
  library computes for that float, whenever this is a finite number.
\<close>

theorem function_domain_errors:
  "(fst (eval_node m (SafeExpressionEvaluator m) arg) = Inr (PyFloat x) \<longrightarrow>
      (float_is_negative x \<longrightarrow>
         fst (eval_node m (SafeExpressionEvaluator m) (Call (Name ''sqrt'') [arg] [])) =
           Inl (ValueError (Text ''math domain error'')))
    \<and> (float_le x (Finite 0) \<longrightarrow>
         fst (eval_node m (SafeExpressionEvaluator m) (Call (Name ''log'') [arg] [])) =
           Inl (ValueError (Text ''math domain error''))
       \<and> fst (eval_node m (SafeExpressionEvaluator m) (Call (Name ''log10'') [arg] [])) =
           Inl (ValueError (Text ''math domain error'')))
    \<and> (float_isinf x \<longrightarrow>
         fst (eval_node m (SafeExpressionEvaluator m) (Call (Name ''tan'') [arg] [])) =
           Inl (ValueError (Text ''math domain error'')))
    \<and> (x = Finite q \<and> float_isfinite (libm_tan m q) \<longrightarrow>
         fst (eval_node m (SafeExpressionEvaluator m) (Call (Name ''tan'') [arg] [])) =
           Inr (PyFloat (libm_tan m q))))
   \<and> eval_handlers (Inl (ValueError (Text ''math domain error''))) =
       Inl (ValueError MathDomainErrorMessage)
   \<and> (ast_parse ''sqrt(-4)'' = Inr (Call (Name ''sqrt'') [UnaryOp USub (Constant (IntValue 4))] [])
      \<longrightarrow> fst (evaluator_eval ast_parse m (SafeExpressionEvaluator m) ''sqrt(-4)'') =
            Inl (ValueError MathDomainErrorMessage))"
proof -
  have "fst (eval_node m (SafeExpressionEvaluator m) (UnaryOp USub (Constant (IntValue 4)))) =
          Inr (PyFloat (Finite (- 4)))"
    by (simp add: fst_eval_node float_of_int_small)
  moreover have "float_is_negative (Finite (- 4))"
    by (simp add: float_is_negative_def)
  ultimately show ?thesis
    by (auto simp: fst_eval_node allowed_functions_lookup math_sqrt_negative math_log_nonpositive
          math_log10_nonpositive math_tan_infinite math_tan_finite
          mentions_math_domain_error_text fst_evaluator_eval float_of_int_small)
qed

theorem function_domain_errors_witness:
  "fst (eval_node recorded_libm (SafeExpressionEvaluator recorded_libm)
          (UnaryOp USub (Constant (IntValue 4)))) = Inr (PyFloat (Finite (- 4)))
   \<and> float_is_negative (Finite (- 4)) \<and> float_le (Finite (- 4)) (Finite 0)
   \<and> fst (eval_node recorded_libm (SafeExpressionEvaluator recorded_libm)
          (Constant (FloatValue PInf))) = Inr (PyFloat PInf)
   \<and> float_isinf PInf
   \<and> fst (eval_node recorded_libm (SafeExpressionEvaluator recorded_libm)
          (BinOp (Name ''pi'') Div (Constant (IntValue 2)))) =
         Inr (PyFloat (Finite (884279719003555 / 2 ^ 49)))
   \<and> float_isfinite (libm_tan recorded_libm (884279719003555 / 2 ^ 49))
   \<and> recorded_parse ''sqrt(-4)'' =
         Inr (Call (Name ''sqrt'') [UnaryOp USub (Constant (IntValue 4))] [])
   \<and> fst (eval_node recorded_libm (SafeExpressionEvaluator recorded_libm)
          (Call (Name ''sqrt'') [UnaryOp USub (Constant (IntValue 4))] [])) =
         Inl (ValueError (Text ''math domain error''))
   \<and> fst (eval_node recorded_libm (SafeExpressionEvaluator recorded_libm)
          (Call (Name ''log'') [UnaryOp USub (Constant (IntValue 4))] [])) =
         Inl (ValueError (Text ''math domain error''))
   \<and> fst (eval_node recorded_libm (SafeExpressionEvaluator recorded_libm)
          (Call (Name ''log10'') [UnaryOp USub (Constant (IntValue 4))] [])) =
         Inl (ValueError (Text ''math domain error''))
   \<and> fst (eval_node recorded_libm (SafeExpressionEvaluator recorded_libm)
          (Call (Name ''tan'') [Constant (FloatValue PInf)] [])) =
         Inl (ValueError (Text ''math domain error''))
   \<and> fst (eval_node recorded_libm (SafeExpressionEvaluator recorded_libm)
          (Call (Name ''tan'') [BinOp (Name ''pi'') Div (Constant (IntValue 2))] [])) =
         Inr (PyFloat (libm_tan recorded_libm (884279719003555 / 2 ^ 49)))
   \<and> fst (evaluator_eval recorded_parse recorded_libm (SafeExpressionEvaluator recorded_libm)
          ''sqrt(-4)'') = Inl (ValueError MathDomainErrorMessage)"
proof -
  let ?ev = "SafeExpressionEvaluator recorded_libm"
  let ?arg = "UnaryOp USub (Constant (IntValue 4))"
  let ?half_pi = "BinOp (Name ''pi'') Div (Constant (IntValue 2))"
  have h1: "fst (eval_node recorded_libm ?ev ?arg) = Inr (PyFloat (Finite (- 4)))"
    by (simp add: fst_eval_node float_of_int_small)
  have h2: "float_is_negative (Finite (- 4))" "float_le (Finite (- 4)) (Finite 0)"
    by (simp_all add: float_is_negative_def)
  have h3: "fst (eval_node recorded_libm ?ev (Constant (FloatValue PInf))) = Inr (PyFloat PInf)"
    by (simp add: fst_eval_node)
  have h4: "float_isinf PInf"
    by simp
  have h5: "recorded_parse ''sqrt(-4)'' = Inr (Call (Name ''sqrt'') [?arg] [])"
    by (simp add: recorded_parse_def recorded_parses_def)
  have h6: "fst (eval_node recorded_libm ?ev ?half_pi) =
      Inr (PyFloat (Finite (884279719003555 / 2 ^ 49)))"
    by (rule eval_half_pi)
  have h7: "float_isfinite (libm_tan recorded_libm (884279719003555 / 2 ^ 49))"
    by (simp add: recorded_libm_def)
  from h1 h2 h3 h4 h5 h6 h7
    function_domain_errors [of recorded_libm ?arg "Finite (- 4)" "- 4" recorded_parse]
    function_domain_errors [of recorded_libm "Constant (FloatValue PInf)" PInf 0 recorded_parse]
    function_domain_errors [of recorded_libm ?half_pi "Finite (884279719003555 / 2 ^ 49)"
      "884279719003555 / 2 ^ 49" recorded_parse]
  show ?thesis by blast
qed

text \<open>
  The claim as first stated has the tangent fail at its undefined points. The only float
  arguments at which it fails are the infinities. At \<^verbatim>\<open>tan(pi/2)\<close>, where the argument is
  the float nearest to \<open>\<pi>/2\<close>, the recorded host returns 1.633123935319537e+16, a finite
  value, and no error is raised.
\<close>

theorem tangent_of_half_pi_is_finite:
  "fst (evaluator_eval recorded_parse recorded_libm (SafeExpressionEvaluator recorded_libm)
          ''tan(pi/2)'') = Inr (PyFloat (Finite 16331239353195370))"
proof -
  have "math_tan recorded_libm (PyFloat (Finite (884279719003555 / 2 ^ 49))) =
      Inr (PyFloat (Finite 16331239353195370))"
    by (simp add: math_tan_def math_1_def recorded_libm_def)
  then show ?thesis
    by (simp add: fst_evaluator_eval recorded_parse_def recorded_parses_def fst_eval_Call_Name
          allowed_functions_lookup eval_half_pi)
qed

lemma ascii_lower_space: "ascii_lower c = CHR '' '' \<Longrightarrow> c = CHR '' ''"
proof -
  assume a: "ascii_lower c = CHR '' ''"
  show ?thesis
  proof (cases "65 \<le> (of_char c :: nat) \<and> (of_char c :: nat) \<le> 90")
    case True
    then have "ascii_lower c = char_of ((of_char c :: nat) + 32)"
      by (simp add: ascii_lower_def Let_def)
    with a have "(of_char (char_of ((of_char c :: nat) + 32) :: char) :: nat) = of_char (CHR '' '')"
      by simp
    with True show ?thesis by (simp add: of_char_of)
  next
    case False
    with a show ?thesis by (simp add: ascii_lower_def Let_def)
  qed
qed

lemma phrase_needs_space:
  "sublist ''math domain error'' (map ascii_lower s) \<Longrightarrow> CHR '' '' \<in> set s"
proof -
  assume "sublist ''math domain error'' (map ascii_lower s)"
  then have "set ''math domain error'' \<subseteq> set (map ascii_lower s)"
    by (rule set_mono_sublist)
  then have "CHR '' '' \<in> ascii_lower ` set s" by simp
  then show ?thesis using ascii_lower_space by fastforce
qed

lemma no_space_not_domain_error:
  "CHR '' '' \<notin> set (message_ascii msg) \<Longrightarrow> \<not> mentions_math_domain_error msg"
  unfolding mentions_math_domain_error_def using phrase_needs_space by blast

lemma whitelisted_name_no_space:
  "allowed_functions (SafeExpressionEvaluator m) f \<noteq> None \<Longrightarrow> CHR '' '' \<notin> set f"
  using whitelisted_function_names [of m f] by auto

subsection \<open>Calls qualified with \<^verbatim>\<open>math.\<close>\<close>

text \<open>
  Claim C7. A call \<^verbatim>\<open>math.f(...)\<close> is evaluated exactly as the call \<^verbatim>\<open>f(...)\<close>: the two
  nodes have the same result (for a whitelisted \<open>f\<close> and for any other), and so have two
  texts that parse to them. A call through any other qualifier, be it another name or
  another kind of expression, raises the unsupported-attribute-access error naming the
  attribute, and \<^verbatim>\<open>eval\<close> passes that error on unchanged (an identifier holds no space).
\<close>

theorem math_qualified_call:
  "eval_node m self (Call (Attribute (Name ''math'') f) args kws) =
     eval_node m self (Call (Name f) args kws)
   \<and> (ast_parse (replace_caret s) = Inr (Call (Attribute (Name ''math'') f) args kws)
        \<and> ast_parse (replace_caret s') = Inr (Call (Name f) args kws)
      \<longrightarrow> evaluator_eval ast_parse m self s = evaluator_eval ast_parse m self s')
   \<and> (q \<noteq> Name ''math'' \<longrightarrow>
        fst (eval_node m self (Call (Attribute q f) args kws)) =
          Inl (ValueError (UnsupportedAttributeAccess f))
      \<and> (CHR '' '' \<notin> set f \<longrightarrow>
           eval_handlers (fst (eval_node m self (Call (Attribute q f) args kws))) =
             Inl (ValueError (UnsupportedAttributeAccess f))))"
  by (simp add: eval_node_math_sugar eval_node_other_qualifier evaluator_eval_def
        no_space_not_domain_error)


theorem math_qualified_call_witness:
  "recorded_parse (replace_caret ''math.sqrt(16)'') =
     Inr (Call (Attribute (Name ''math'') ''sqrt'') [Constant (IntValue 16)] [])
   \<and> recorded_parse (replace_caret ''sqrt(16)'') =
     Inr (Call (Name ''sqrt'') [Constant (IntValue 16)] [])
   \<and> Name ''os'' \<noteq> Name ''math'' \<and> CHR '' '' \<notin> set ''sqrt''
   \<and> evaluator_eval recorded_parse recorded_libm (SafeExpressionEvaluator recorded_libm)
         ''math.sqrt(16)'' =
       evaluator_eval recorded_parse recorded_libm (SafeExpressionEvaluator recorded_libm)
         ''sqrt(16)''
   \<and> eval_handlers (fst (eval_node recorded_libm (SafeExpressionEvaluator recorded_libm)
         (Call (Attribute (Name ''os'') ''sqrt'') [Constant (IntValue 16)] []))) =
       Inl (ValueError (UnsupportedAttributeAccess ''sqrt''))"
proof -
  have h1: "recorded_parse (replace_caret ''math.sqrt(16)'') =
      Inr (Call (Attribute (Name ''math'') ''sqrt'') [Constant (IntValue 16)] [])"
    by (simp add: recorded_parse_def recorded_parses_def)
  have h2: "recorded_parse (replace_caret ''sqrt(16)'') =
      Inr (Call (Name ''sqrt'') [Constant (IntValue 16)] [])"
    by (simp add: recorded_parse_def recorded_parses_def)
  have h3: "Name ''os'' \<noteq> Name ''math''" "CHR '' '' \<notin> set ''sqrt''"
    by simp_all
  from h1 h2 h3
    math_qualified_call [of recorded_libm "SafeExpressionEvaluator recorded_libm" "''sqrt''"
      "[Constant (IntValue 16)]" "[]" recorded_parse "''math.sqrt(16)''" "''sqrt(16)''"
      "Name ''os''"]
  show ?thesis by blast
qed

subsection \<open>The number of arguments\<close>

text \<open>
  Claim C6, as amended. For a whitelisted function name, a call whose number of
  positional arguments differs from one raises the error that names the function and the
  one argument it needs; a call with exactly one positional argument and keyword
  arguments raises the fixed keyword-arguments error instead, which names neither.
  \<^verbatim>\<open>eval\<close> passes both on unchanged. In particular the text \<^verbatim>\<open>sqrt(1,2)\<close> fails with
  the error naming \<^verbatim>\<open>sqrt\<close>.
\<close>

theorem arity_errors:
  "(allowed_functions (SafeExpressionEvaluator m) f \<noteq> None \<longrightarrow>
      (length args \<noteq> 1 \<longrightarrow>
         fst (eval_node m (SafeExpressionEvaluator m) (Call (Name f) args kws)) =
           Inl (ValueError (FunctionNeedsOneArgument f))
       \<and> eval_handlers (fst (eval_node m (SafeExpressionEvaluator m) (Call (Name f) args kws))) =
           Inl (ValueError (FunctionNeedsOneArgument f))
       \<and> message_ascii (FunctionNeedsOneArgument f) = f)
    \<and> (length args = 1 \<and> kws \<noteq> [] \<longrightarrow>
         fst (eval_node m (SafeExpressionEvaluator m) (Call (Name f) args kws)) =
           Inl (ValueError KeywordArgumentsNotSupported)
       \<and> eval_handlers (fst (eval_node m (SafeExpressionEvaluator m) (Call (Name f) args kws))) =
           Inl (ValueError KeywordArgumentsNotSupported)))
   \<and> (ast_parse ''sqrt(1,2)'' =
         Inr (Call (Name ''sqrt'') [Constant (IntValue 1), Constant (IntValue 2)] [])
      \<longrightarrow> fst (evaluator_eval ast_parse m (SafeExpressionEvaluator m) ''sqrt(1,2)'') =
            Inl (ValueError (FunctionNeedsOneArgument ''sqrt'')))"
proof -
  have a: "\<not> mentions_math_domain_error (FunctionNeedsOneArgument f)"
    if "allowed_functions (SafeExpressionEvaluator m) f \<noteq> None" for f
    using that by (intro no_space_not_domain_error) (simp add: whitelisted_name_no_space)
  have b: "\<not> mentions_math_domain_error KeywordArgumentsNotSupported"
    by (intro no_space_not_domain_error) simp
  have c: "allowed_functions (SafeExpressionEvaluator m) ''sqrt'' \<noteq> None"
    by (simp add: allowed_functions_lookup)
  show ?thesis
    using a b a [OF c] c
    by (auto simp: fst_eval_node fst_evaluator_eval length_Suc_conv
             split: option.splits list.splits)
qed


theorem arity_errors_witness:
  "allowed_functions (SafeExpressionEvaluator recorded_libm) ''sqrt'' \<noteq> None
   \<and> length [Constant (IntValue 1), Constant (IntValue 2)] \<noteq> 1
   \<and> length [Constant (IntValue 1)] = 1
   \<and> [Keyword (Some ''x'') (Constant (IntValue 2))] \<noteq> []
   \<and> recorded_parse ''sqrt(1,2)'' =
         Inr (Call (Name ''sqrt'') [Constant (IntValue 1), Constant (IntValue 2)] [])
   \<and> eval_handlers (fst (eval_node recorded_libm (SafeExpressionEvaluator recorded_libm)
         (Call (Name ''sqrt'') [Constant (IntValue 1), Constant (IntValue 2)] []))) =
       Inl (ValueError (FunctionNeedsOneArgument ''sqrt''))
   \<and> eval_handlers (fst (eval_node recorded_libm (SafeExpressionEvaluator recorded_libm)
         (Call (Name ''sqrt'') [Constant (IntValue 1)]
            [Keyword (Some ''x'') (Constant (IntValue 2))]))) =
       Inl (ValueError KeywordArgumentsNotSupported)
   \<and> fst (evaluator_eval recorded_parse recorded_libm (SafeExpressionEvaluator recorded_libm)
         ''sqrt(1,2)'') = Inl (ValueError (FunctionNeedsOneArgument ''sqrt''))"
proof -
  have h1: "allowed_functions (SafeExpressionEvaluator recorded_libm) ''sqrt'' \<noteq> None"
    by (simp add: allowed_functions_lookup)
  have h2: "length [Constant (IntValue 1), Constant (IntValue 2)] \<noteq> 1"
    "length [Constant (IntValue 1)] = 1"
    "[Keyword (Some ''x'') (Constant (IntValue 2))] \<noteq> []"
    by simp_all
  have h3: "recorded_parse ''sqrt(1,2)'' =
      Inr (Call (Name ''sqrt'') [Constant (IntValue 1), Constant (IntValue 2)] [])"
    by (simp add: recorded_parse_def recorded_parses_def)
  from h1 h2 h3
    arity_errors [of recorded_libm "''sqrt''" "[Constant (IntValue 1), Constant (IntValue 2)]"
      "[]" recorded_parse]
    arity_errors [of recorded_libm "''sqrt''" "[Constant (IntValue 1)]"
      "[Keyword (Some ''x'') (Constant (IntValue 2))]" recorded_parse]
  show ?thesis by blast
qed

text \<open>
  The claim as first stated has every such error name the function and its arity. The
  text \<^verbatim>\<open>sqrt(1, x=2)\<close> shows otherwise: its error is the keyword-arguments message,
  which carries no name.
\<close>

theorem keyword_error_names_nothing:
  "fst (evaluator_eval recorded_parse recorded_libm (SafeExpressionEvaluator recorded_libm)
          ''sqrt(1, x=2)'') = Inl (ValueError KeywordArgumentsNotSupported)
   \<and> message_ascii KeywordArgumentsNotSupported = []"
  by (simp add: fst_evaluator_eval recorded_parse_def recorded_parses_def fst_eval_node
        allowed_functions_lookup no_space_not_domain_error)

subsection \<open>The caret\<close>

lemma replace_caret_append: "replace_caret (s @ t) = replace_caret s @ replace_caret t"
  by (induction s) simp_all

lemma replace_caret_no_caret: "CHR ''^'' \<notin> set (replace_caret s)"
  by (induction s) simp_all

lemma replace_caret_unchanged: "CHR ''^'' \<notin> set s \<Longrightarrow> replace_caret s = s"
  by (induction s) auto

lemma float_pow_2_10:
  "libm_pow m 2 10 = Finite 1024 \<Longrightarrow> float_pow m (Finite 2) (Finite 10) = Inr (PyFloat (Finite 1024))"
  by (simp add: float_pow_def float_is_zero_def float_is_negative_def)

text \<open>
  Claim C5. Before the text reaches the parser every caret in it is replaced by the two
  characters of the power operator: the replacement acts on each character by itself,
  whatever surrounds it (it distributes over concatenation), it leaves no caret behind
  and changes no other character, and the parser is applied to the replaced text only.
  Consequently, on a host whose parser reads \<^verbatim>\<open>2**10\<close> as the power of the constants 2
  and 10 and whose \<^verbatim>\<open>pow(2, 10)\<close> is 1024, the text \<^verbatim>\<open>2^10\<close> evaluates to 1024.0.
\<close>

theorem caret_is_power:
  "replace_caret (s @ [CHR ''^''] @ t) = replace_caret s @ ''**'' @ replace_caret t
   \<and> replace_caret (s @ t) = replace_caret s @ replace_caret t
   \<and> CHR ''^'' \<notin> set (replace_caret s)
   \<and> (CHR ''^'' \<notin> set s \<longrightarrow> replace_caret s = s)
   \<and> fst (evaluator_eval ast_parse m self s) =
       eval_handlers (case ast_parse (replace_caret s) of
                        Inl e \<Rightarrow> Inl e
                      | Inr body \<Rightarrow> fst (eval_node m self body))
   \<and> (ast_parse ''2**10'' = Inr (BinOp (Constant (IntValue 2)) Pow (Constant (IntValue 10)))
        \<and> libm_pow m 2 10 = Finite 1024
      \<longrightarrow> fst (evaluator_eval ast_parse m self ''2^10'') = Inr (PyFloat (Finite 1024)))"
  by (simp add: replace_caret_append replace_caret_no_caret replace_caret_unchanged
        fst_evaluator_eval fst_eval_node float_of_int_small float_pow_2_10)

theorem caret_is_power_witness:
  "CHR ''^'' \<notin> set ''2**10''
   \<and> recorded_parse ''2**10'' = Inr (BinOp (Constant (IntValue 2)) Pow (Constant (IntValue 10)))
   \<and> libm_pow recorded_libm 2 10 = Finite 1024
   \<and> replace_caret ''2**10'' = ''2**10''
   \<and> fst (evaluator_eval recorded_parse recorded_libm (SafeExpressionEvaluator recorded_libm)
         ''2^10'') = Inr (PyFloat (Finite 1024))"
proof -
  have h1: "CHR ''^'' \<notin> set ''2**10''"
    by simp
  have h2: "recorded_parse ''2**10'' =
      Inr (BinOp (Constant (IntValue 2)) Pow (Constant (IntValue 10)))"
    by (simp add: recorded_parse_def recorded_parses_def)
  have h3: "libm_pow recorded_libm 2 10 = Finite 1024"
    by (simp add: recorded_libm_def)
  from h1 h2 h3
    caret_is_power [of "''2**10''" "[]" recorded_parse recorded_libm
      "SafeExpressionEvaluator recorded_libm"]
  show ?thesis by blast
qed

subsection \<open>Purity\<close>

text \<open>
  Claim C8. \<^verbatim>\<open>eval\<close> returns the evaluator object as it received it, whitelist tables
  included, and evaluating the same text again on the returned object gives the same
  result or the same error: nothing that one call leaves behind changes the next.
\<close>

theorem evaluation_is_pure:
  "snd (evaluator_eval ast_parse m self s) = self
   \<and> allowed_functions (snd (evaluator_eval ast_parse m self s)) = allowed_functions self
   \<and> allowed_names (snd (evaluator_eval ast_parse m self s)) = allowed_names self
   \<and> evaluator_eval ast_parse m (snd (evaluator_eval ast_parse m self s)) s =
       evaluator_eval ast_parse m self s"
proof -
  have "snd (evaluator_eval ast_parse m self s) = self"
    using eval_node_self
    by (auto simp: evaluator_eval_def split: sum.splits prod.splits) (metis snd_conv)
  then show ?thesis by simp
qed

subsection \<open>Syntax outside the whitelist\<close>

lemma isl_eval_handlers: "isl (eval_handlers r) = isl r"
  by (cases r rule: eval_handlers.cases) simp_all

lemma Call_Name_fails:
  "kws \<noteq> [] \<or> list_ex (\<lambda>a. isl (fst (eval_node m self a))) args \<Longrightarrow>
   isl (fst (eval_node m self (Call (Name f) args kws)))"
  by (cases args; cases "tl args")
     (auto simp: fst_eval_Call_Name split: option.splits sum.splits)

lemma Call_other_fails:
  "(case func of Name _ \<Rightarrow> False | Attribute q _ \<Rightarrow> q \<noteq> Name ''math'' | _ \<Rightarrow> True) \<Longrightarrow>
   isl (fst (eval_node m self (Call func args kws)))"
  by (cases func) (simp_all add: eval_node_other_qualifier, simp_all add: eval_node.simps)

lemma outside_whitelist_fails:
  "outside_whitelist n \<Longrightarrow> isl (fst (eval_node m self n))"
proof (induction n rule: outside_whitelist.induct)
  case (1 v)
  then show ?case by (cases v) (simp_all add: fst_eval_node)
next
  case (2 op operand)
  then show ?case
    by (cases op) (auto simp: fst_eval_node split: sum.splits)
next
  case (3 left op right)
  then show ?case
    by (cases op) (auto simp: fst_eval_node split: sum.splits)
next
  case (4 func args kws)
  show ?case
  proof (cases "case func of Name _ \<Rightarrow> False | Attribute q _ \<Rightarrow> q \<noteq> Name ''math'' | _ \<Rightarrow> True")
    case True
    then show ?thesis by (rule Call_other_fails)
  next
    case False
    with 4 have *: "kws \<noteq> [] \<or> list_ex (\<lambda>a. isl (fst (eval_node m self a))) args"
      by (auto simp: list_ex_iff)
    from False obtain f where "func = Name f \<or> func = Attribute (Name ''math'') f"
      by (cases func) (auto split: node.splits)
    with * show ?thesis
      by (auto simp: eval_node_math_sugar intro: Call_Name_fails)
  qed
qed (simp_all add: fst_eval_node)

lemma constant_type_name_no_space: "CHR '' '' \<notin> set (constant_type_name v)"
  by (cases v) simp_all

lemma unaryop_name_no_space: "CHR '' '' \<notin> set (unaryop_name uop)"
  by (cases uop) simp_all

lemma operator_name_no_space: "CHR '' '' \<notin> set (operator_name bop)"
  by (cases bop) simp_all

lemma unsupported_literal:
  "outside_whitelist (Constant v) \<Longrightarrow>
   fst (eval_node m self (Constant v)) =
     Inl (ValueError (UnsupportedConstantType (constant_type_name v)))"
  by (cases v) (simp_all add: fst_eval_node)

lemma unsupported_unary_operator:
  "uop \<noteq> UAdd \<Longrightarrow> uop \<noteq> USub \<Longrightarrow> fst (eval_node m self operand) = Inr v \<Longrightarrow>
   fst (eval_node m self (UnaryOp uop operand)) =
     Inl (ValueError (UnsupportedUnaryOperator (unaryop_name uop)))"
  by (cases uop) (simp_all add: fst_eval_node)

lemma unsupported_binary_operator:
  "bop \<notin> {Add, Sub, Mult, Div, Mod, Pow} \<Longrightarrow>
   fst (eval_node m self left) = Inr l \<Longrightarrow> fst (eval_node m self right) = Inr r \<Longrightarrow>
   fst (eval_node m self (BinOp left bop right)) =
     Inl (ValueError (UnsupportedBinaryOperator (operator_name bop)))"
  by (cases bop) (simp_all add: fst_eval_node)

lemma unsupported_call_format:
  "(case func of Name _ \<Rightarrow> False | Attribute _ _ \<Rightarrow> False | _ \<Rightarrow> True) \<Longrightarrow>
   fst (eval_node m self (Call func args kws)) = Inl (ValueError UnsupportedCallFormat)"
  by (cases func) (simp_all add: eval_node.simps)

lemma errors_are_passed_on:
  "fst (eval_node m self operand) = Inl e \<Longrightarrow>
   fst (eval_node m self (UnaryOp uop operand)) = Inl e"
  "fst (eval_node m self left) = Inl e \<Longrightarrow>
   fst (eval_node m self (BinOp left bop right)) = Inl e"
  "fst (eval_node m self left) = Inr l \<Longrightarrow> fst (eval_node m self right) = Inl e \<Longrightarrow>
   fst (eval_node m self (BinOp left bop right)) = Inl e"
  "allowed_functions self f \<noteq> None \<Longrightarrow> fst (eval_node m self arg) = Inl e \<Longrightarrow>
   fst (eval_node m self (Call (Name f) [arg] [])) = Inl e"
  by (auto simp: fst_eval_node)

text \<open>
  Claim C3, as amended.
  \<^item> A text that the parser rejects with \<^verbatim>\<open>SyntaxError\<close> (an assignment, a statement,
    several statements) fails with the syntax-error message, and the evaluator is not
    entered.
  \<^item> A text that parses to an expression with a construct outside the whitelist, as the
    expression itself or in an operand or argument, never yields a value.
  \<^item> When the whole expression is such a construct, the error is its own and not the
    syntax error: a literal that is not a number fails with the unsupported-constant
    error naming its type; an attribute access that is not the function of a call, or
    any other node class, with the unsupported-node error naming the class; a unary or
    binary operator outside the whitelist, once its operands have evaluated, with the
    unsupported-operator error naming the operator; a call through a qualifier other
    than \<^verbatim>\<open>math\<close> with the unsupported-attribute-access error naming the attribute; a
    call through neither a name nor an attribute with the unsupported-call-format error.
    \<^verbatim>\<open>eval\<close> passes each of these errors on unchanged.
  \<^item> The operands of an operator, the left one before the right one, and the argument
    of a call that passes the call's own checks (a whitelisted name, one positional
    argument, no keywords) are evaluated before the node itself, and an error that they
    raise is passed on unchanged as the error of the whole. So parts of the text are
    evaluated before the failure.
\<close>

theorem outside_grammar_fails:
  "(ast_parse (replace_caret s) = Inl SyntaxError \<longrightarrow>
      evaluator_eval ast_parse m self s = (Inl (ValueError SyntaxErrorMessage), self))
   \<and> (ast_parse (replace_caret s) = Inr body \<and> outside_whitelist body \<longrightarrow>
      isl (fst (eval_node m self body)) \<and> isl (fst (evaluator_eval ast_parse m self s)))
   \<and> (outside_whitelist (Constant c) \<longrightarrow>
        fst (eval_node m self (Constant c)) =
          Inl (ValueError (UnsupportedConstantType (constant_type_name c)))
      \<and> eval_handlers (fst (eval_node m self (Constant c))) =
          Inl (ValueError (UnsupportedConstantType (constant_type_name c))))
   \<and> fst (eval_node m self (Attribute value attr)) =
       Inl (ValueError (UnsupportedNodeType ''Attribute''))
   \<and> eval_handlers (fst (eval_node m self (Attribute value attr))) =
       Inl (ValueError (UnsupportedNodeType ''Attribute''))
   \<and> fst (eval_node m self (OtherNode kind)) = Inl (ValueError (UnsupportedNodeType kind))
   \<and> (CHR '' '' \<notin> set kind \<longrightarrow>
        eval_handlers (fst (eval_node m self (OtherNode kind))) =
          Inl (ValueError (UnsupportedNodeType kind)))
   \<and> (uop \<noteq> UAdd \<and> uop \<noteq> USub \<and> fst (eval_node m self x) = Inr xv \<longrightarrow>
        fst (eval_node m self (UnaryOp uop x)) =
          Inl (ValueError (UnsupportedUnaryOperator (unaryop_name uop)))
      \<and> eval_handlers (fst (eval_node m self (UnaryOp uop x))) =
          Inl (ValueError (UnsupportedUnaryOperator (unaryop_name uop))))
   \<and> (bop \<notin> {Add, Sub, Mult, Div, Mod, Pow}
        \<and> fst (eval_node m self y) = Inr yv \<and> fst (eval_node m self z) = Inr zv \<longrightarrow>
        fst (eval_node m self (BinOp y bop z)) =
          Inl (ValueError (UnsupportedBinaryOperator (operator_name bop)))
      \<and> eval_handlers (fst (eval_node m self (BinOp y bop z))) =
          Inl (ValueError (UnsupportedBinaryOperator (operator_name bop))))
   \<and> ((case func of Name _ \<Rightarrow> False | Attribute _ _ \<Rightarrow> False | _ \<Rightarrow> True) \<longrightarrow>
        fst (eval_node m self (Call func args kws)) = Inl (ValueError UnsupportedCallFormat)
      \<and> eval_handlers (fst (eval_node m self (Call func args kws))) =
          Inl (ValueError UnsupportedCallFormat))
   \<and> (q \<noteq> Name ''math'' \<longrightarrow>
        fst (eval_node m self (Call (Attribute q a) args' kws')) =
          Inl (ValueError (UnsupportedAttributeAccess a))
      \<and> (CHR '' '' \<notin> set a \<longrightarrow>
           eval_handlers (fst (eval_node m self (Call (Attribute q a) args' kws'))) =
             Inl (ValueError (UnsupportedAttributeAccess a))))
   \<and> (fst (eval_node m self operand) = Inl e \<longrightarrow>
        fst (eval_node m self (UnaryOp op1 operand)) = Inl e
      \<and> fst (eval_node m self (BinOp operand op2 right)) = Inl e
      \<and> (fst (eval_node m self left) = Inr l \<longrightarrow>
           fst (eval_node m self (BinOp left op2 operand)) = Inl e)
      \<and> (allowed_functions self f \<noteq> None \<longrightarrow>
           fst (eval_node m self (Call (Name f) [operand] [])) = Inl e))"
proof -
  have r10: "fst (eval_node m self (Call (Attribute q a) args' kws')) =
        Inl (ValueError (UnsupportedAttributeAccess a))
      \<and> (CHR '' '' \<notin> set a \<longrightarrow>
           eval_handlers (fst (eval_node m self (Call (Attribute q a) args' kws'))) =
             Inl (ValueError (UnsupportedAttributeAccess a)))"
    if "q \<noteq> Name ''math''"
    using that by (simp add: eval_node_other_qualifier no_space_not_domain_error)
  have r1: "evaluator_eval ast_parse m self s = (Inl (ValueError SyntaxErrorMessage), self)"
    if "ast_parse (replace_caret s) = Inl SyntaxError"
    using that by (simp add: evaluator_eval_def)
  have r2: "isl (fst (eval_node m self body)) \<and> isl (fst (evaluator_eval ast_parse m self s))"
    if "ast_parse (replace_caret s) = Inr body" "outside_whitelist body"
    using that by (simp add: fst_evaluator_eval isl_eval_handlers outside_whitelist_fails)
  have r3: "fst (eval_node m self (Constant c)) =
        Inl (ValueError (UnsupportedConstantType (constant_type_name c)))
      \<and> eval_handlers (fst (eval_node m self (Constant c))) =
        Inl (ValueError (UnsupportedConstantType (constant_type_name c)))"
    if "outside_whitelist (Constant c)"
    using that constant_type_name_no_space [of c]
    by (simp add: unsupported_literal no_space_not_domain_error)
  have r4: "fst (eval_node m self (Attribute value attr)) =
        Inl (ValueError (UnsupportedNodeType ''Attribute''))
      \<and> eval_handlers (fst (eval_node m self (Attribute value attr))) =
        Inl (ValueError (UnsupportedNodeType ''Attribute''))"
    by (simp add: fst_eval_node no_space_not_domain_error)
  have r5: "fst (eval_node m self (OtherNode kind)) = Inl (ValueError (UnsupportedNodeType kind))
      \<and> (CHR '' '' \<notin> set kind \<longrightarrow>
           eval_handlers (fst (eval_node m self (OtherNode kind))) =
             Inl (ValueError (UnsupportedNodeType kind)))"
    by (simp add: fst_eval_node no_space_not_domain_error)
  have r6: "fst (eval_node m self (UnaryOp uop x)) =
        Inl (ValueError (UnsupportedUnaryOperator (unaryop_name uop)))
      \<and> eval_handlers (fst (eval_node m self (UnaryOp uop x))) =
        Inl (ValueError (UnsupportedUnaryOperator (unaryop_name uop)))"
    if "uop \<noteq> UAdd" "uop \<noteq> USub" "fst (eval_node m self x) = Inr xv"
    using that unaryop_name_no_space [of uop]
    by (simp add: unsupported_unary_operator [of uop m self x xv] no_space_not_domain_error)
  have r7: "fst (eval_node m self (BinOp y bop z)) =
        Inl (ValueError (UnsupportedBinaryOperator (operator_name bop)))
      \<and> eval_handlers (fst (eval_node m self (BinOp y bop z))) =
        Inl (ValueError (UnsupportedBinaryOperator (operator_name bop)))"
    if "bop \<notin> {Add, Sub, Mult, Div, Mod, Pow}"
      "fst (eval_node m self y) = Inr yv" "fst (eval_node m self z) = Inr zv"
    using that operator_name_no_space [of bop]
    by (simp add: unsupported_binary_operator [of bop m self y yv z zv] no_space_not_domain_error)
  have r8: "fst (eval_node m self (Call func args kws)) = Inl (ValueError UnsupportedCallFormat)
      \<and> eval_handlers (fst (eval_node m self (Call func args kws))) =
        Inl (ValueError UnsupportedCallFormat)"
    if "case func of Name _ \<Rightarrow> False | Attribute _ _ \<Rightarrow> False | _ \<Rightarrow> True"
    using that by (simp add: unsupported_call_format no_space_not_domain_error)
  have r9: "fst (eval_node m self (UnaryOp op1 operand)) = Inl e
      \<and> fst (eval_node m self (BinOp operand op2 right)) = Inl e
      \<and> (fst (eval_node m self left) = Inr l \<longrightarrow>
           fst (eval_node m self (BinOp left op2 operand)) = Inl e)
      \<and> (allowed_functions self f \<noteq> None \<longrightarrow>
           fst (eval_node m self (Call (Name f) [operand] [])) = Inl e)"
    if "fst (eval_node m self operand) = Inl e"
    using that by (auto simp: fst_eval_node)
  from r1 r2 r3 r4 r5 r6 r7 r8 r9 r10
  show ?thesis by blast
qed

theorem outside_grammar_fails_witness:
  "recorded_parse (replace_caret ''x = 1'') = Inl SyntaxError
   \<and> recorded_parse (replace_caret ''1/0 + [1]'') =
       Inr (BinOp (BinOp (Constant (IntValue 1)) Div (Constant (IntValue 0))) Add (OtherNode ''List''))
   \<and> outside_whitelist
       (BinOp (BinOp (Constant (IntValue 1)) Div (Constant (IntValue 0))) Add (OtherNode ''List''))
   \<and> outside_whitelist (Constant (StrValue ''abc''))
   \<and> CHR '' '' \<notin> set ''List''
   \<and> Not \<noteq> UAdd \<and> Not \<noteq> USub
   \<and> FloorDiv \<notin> {Add, Sub, Mult, Div, Mod, Pow}
   \<and> fst (eval_node recorded_libm (SafeExpressionEvaluator recorded_libm) (Constant (IntValue 1))) =
       Inr (PyFloat (Finite 1))
   \<and> fst (eval_node recorded_libm (SafeExpressionEvaluator recorded_libm) (Constant (IntValue 2))) =
       Inr (PyFloat (Finite 2))
   \<and> (case Constant (IntValue 1) of Name _ \<Rightarrow> False | Attribute _ _ \<Rightarrow> False | _ \<Rightarrow> True)
   \<and> Name ''os'' \<noteq> Name ''math'' \<and> CHR '' '' \<notin> set ''sqrt''
   \<and> fst (eval_node recorded_libm (SafeExpressionEvaluator recorded_libm) (OtherNode ''List'')) =
       Inl (ValueError (UnsupportedNodeType ''List''))
   \<and> allowed_functions (SafeExpressionEvaluator recorded_libm) ''sqrt'' \<noteq> None
   \<and> evaluator_eval recorded_parse recorded_libm (SafeExpressionEvaluator recorded_libm) ''x = 1'' =
       (Inl (ValueError SyntaxErrorMessage), SafeExpressionEvaluator recorded_libm)
   \<and> isl (fst (evaluator_eval recorded_parse recorded_libm (SafeExpressionEvaluator recorded_libm)
         ''1/0 + [1]''))
   \<and> eval_handlers (fst (eval_node recorded_libm (SafeExpressionEvaluator recorded_libm)
         (Constant (StrValue ''abc'')))) = Inl (ValueError (UnsupportedConstantType ''str''))
   \<and> eval_handlers (fst (eval_node recorded_libm (SafeExpressionEvaluator recorded_libm)
         (OtherNode ''List''))) = Inl (ValueError (UnsupportedNodeType ''List''))
   \<and> eval_handlers (fst (eval_node recorded_libm (SafeExpressionEvaluator recorded_libm)
         (UnaryOp Not (Constant (IntValue 1))))) =
       Inl (ValueError (UnsupportedUnaryOperator ''Not''))
   \<and> eval_handlers (fst (eval_node recorded_libm (SafeExpressionEvaluator recorded_libm)
         (BinOp (Constant (IntValue 1)) FloorDiv (Constant (IntValue 2))))) =
       Inl (ValueError (UnsupportedBinaryOperator ''FloorDiv''))
   \<and> eval_handlers (fst (eval_node recorded_libm (SafeExpressionEvaluator recorded_libm)
         (Call (Constant (IntValue 1)) [Constant (IntValue 2)] []))) =
       Inl (ValueError UnsupportedCallFormat)
   \<and> eval_handlers (fst (eval_node recorded_libm (SafeExpressionEvaluator recorded_libm)
         (Call (Attribute (Name ''os'') ''sqrt'') [Constant (IntValue 2)] []))) =
       Inl (ValueError (UnsupportedAttributeAccess ''sqrt''))
   \<and> fst (eval_node recorded_libm (SafeExpressionEvaluator recorded_libm)
         (UnaryOp USub (OtherNode ''List''))) = Inl (ValueError (UnsupportedNodeType ''List''))
   \<and> fst (eval_node recorded_libm (SafeExpressionEvaluator recorded_libm)
         (BinOp (OtherNode ''List'') Add (Constant (IntValue 1)))) =
       Inl (ValueError (UnsupportedNodeType ''List''))
   \<and> fst (eval_node recorded_libm (SafeExpressionEvaluator recorded_libm)
         (BinOp (Constant (IntValue 1)) Add (OtherNode ''List''))) =
       Inl (ValueError (UnsupportedNodeType ''List''))
   \<and> fst (eval_node recorded_libm (SafeExpressionEvaluator recorded_libm)
         (Call (Name ''sqrt'') [OtherNode ''List''] [])) =
       Inl (ValueError (UnsupportedNodeType ''List''))"
proof -
  let ?ev = "SafeExpressionEvaluator recorded_libm"
  let ?one = "Constant (IntValue 1)"
  let ?two = "Constant (IntValue 2)"
  let ?body = "BinOp (BinOp ?one Div (Constant (IntValue 0))) Add (OtherNode ''List'')"
  have h1: "recorded_parse (replace_caret ''x = 1'') = Inl SyntaxError"
    by (simp add: recorded_parse_def recorded_parses_def)
  have h2: "recorded_parse (replace_caret ''1/0 + [1]'') = Inr ?body"
    by (simp add: recorded_parse_def recorded_parses_def)
  have h3: "outside_whitelist ?body" "outside_whitelist (Constant (StrValue ''abc''))"
    by simp_all
  have h4: "CHR '' '' \<notin> set ''List''" "Not \<noteq> UAdd" "Not \<noteq> USub"
    "FloorDiv \<notin> {Add, Sub, Mult, Div, Mod, Pow}"
    by simp_all
  have h5: "fst (eval_node recorded_libm ?ev ?one) = Inr (PyFloat (Finite 1))"
    "fst (eval_node recorded_libm ?ev ?two) = Inr (PyFloat (Finite 2))"
    by (simp_all add: fst_eval_node float_of_int_small)
  have h6: "case ?one of Name _ \<Rightarrow> False | Attribute _ _ \<Rightarrow> False | _ \<Rightarrow> True"
    by simp
  have h7: "fst (eval_node recorded_libm ?ev (OtherNode ''List'')) =
      Inl (ValueError (UnsupportedNodeType ''List''))"
    by (simp add: fst_eval_node)
  have h8: "allowed_functions ?ev ''sqrt'' \<noteq> None"
    by (simp add: allowed_functions_lookup)
  have h9: "Name ''os'' \<noteq> Name ''math''" "CHR '' '' \<notin> set ''sqrt''"
    by simp_all
  note a = outside_grammar_fails [where ast_parse = recorded_parse and s = "''x = 1''"
      and m = recorded_libm and self = ?ev and body = ?body and c = "StrValue ''abc''"
      and kind = "''List''" and uop = Not and x = ?one and xv = "PyFloat (Finite 1)"
      and bop = FloorDiv and y = ?one and yv = "PyFloat (Finite 1)" and z = ?two
      and zv = "PyFloat (Finite 2)" and func = ?one and args = "[?two]" and kws = "[]"
      and operand = "OtherNode ''List''" and e = "ValueError (UnsupportedNodeType ''List'')"
      and ?op1.0 = USub and ?op2.0 = Add and right = ?one and left = ?one
      and l = "PyFloat (Finite 1)" and f = "''sqrt''" and q = "Name ''os''"
      and a = "''sqrt''" and args' = "[?two]" and kws' = "[]"]
  note b = outside_grammar_fails [where ast_parse = recorded_parse and s = "''1/0 + [1]''"
      and m = recorded_libm and self = ?ev and body = ?body]
  from h1 h2 h3 h4 h5 h6 h7 h8 h9 a b show ?thesis
    by simp
qed

text \<open>
  The claim as first stated gives every such text the syntax-error classification and has
  nothing evaluated. A list literal is a counterexample to the first: it parses, and its
  error is the unsupported-node error. The sum of \<^verbatim>\<open>1/0\<close> and a list literal is a
  counterexample to the second: its division is evaluated, and the error is the division
  by zero.
\<close>

theorem list_literal_is_no_syntax_error:
  "fst (evaluator_eval recorded_parse recorded_libm (SafeExpressionEvaluator recorded_libm) ''[1]'') =
     Inl (ValueError (UnsupportedNodeType ''List''))
   \<and> fst (evaluator_eval recorded_parse recorded_libm (SafeExpressionEvaluator recorded_libm)
        ''1/0 + [1]'') = Inl (ValueError DivisionByZeroMessage)"
  by (simp add: fst_evaluator_eval recorded_parse_def recorded_parses_def fst_eval_node
        float_of_int_small float_is_zero_def no_space_not_domain_error)

subsection \<open>Fractional powers of negative numbers\<close>

lemma float_pow_negative_base_fraction:
  "x < 0 \<Longrightarrow> of_int \<lfloor>y\<rfloor> \<noteq> y \<Longrightarrow>
   float_pow m (Finite x) (Finite y) = complex_pow m (Finite x, Finite 0) (Finite y, Finite 0)"
  by (auto simp: float_pow_def float_is_zero_def float_is_negative_def float_is_integer_def)

lemma complex_pow_outcomes:
  "(\<exists>re im. complex_pow m a b = Inr (PyComplex re im))
   \<or> complex_pow m a b = Inl ZeroDivisionError
   \<or> complex_pow m a b = Inl (OverflowError (Text ''complex exponentiation''))"
  by (cases "libm_cpow m a b") (simp_all add: complex_pow_def)

lemma complex_pow_no_domain_error:
  "eval_handlers (complex_pow m a b) \<noteq> Inl (ValueError MathDomainErrorMessage)"
  using complex_pow_outcomes [of m a b] by auto

lemma float_pow_minus_8_half:
  "float_pow m (Finite (- 8)) (Finite (1 / 2)) =
     complex_pow m (Finite (- 8), Finite 0) (Finite (1 / 2), Finite 0)"
proof -
  have "\<lfloor>1 / 2 :: rat\<rfloor> = 0"
    by (rule floor_unique) simp_all
  then show ?thesis
    using float_pow_negative_base_fraction [of "- 8" "1 / 2" m] by simp
qed

text \<open>
  Claim C2. The claim has a negative base raised to a fractional power fail with the
  domain error. The code applies Python's \<^verbatim>\<open>**\<close>, which for such operands computes the
  complex power: on the recorded host the text \<^verbatim>\<open>(-8)**0.5\<close> evaluates to a complex
  number, which \<^verbatim>\<open>eval\<close> returns although it is annotated to return a float. By the
  lemmas above this is so on every host: the result is a complex number (or the error of
  the complex power), never the domain error.
\<close>

theorem negative_base_fractional_power_is_complex:
  "fst (evaluator_eval recorded_parse recorded_libm (SafeExpressionEvaluator recorded_libm)
          ''(-8)**0.5'') =
     Inr (PyComplex (Finite (7025470172532439 / 2 ^ 105)) (Finite (6369051672525773 / 2 ^ 51)))"
  by (simp add: fst_evaluator_eval recorded_parse_def recorded_parses_def fst_eval_node
        float_of_int_small float_pow_minus_8_half complex_pow_def recorded_libm_def)

subsection \<open>Modulo by zero\<close>

lemma py_mod_float_zero:
  "float_is_zero y \<Longrightarrow> py_mod (PyFloat x) (PyFloat y) = Inl ZeroDivisionError"
  by (simp add: float_rem_def)

lemma modulo_by_zero_of_floats:
  "fst (eval_node m self left) = Inr (PyFloat x) \<Longrightarrow>
   fst (eval_node m self right) = Inr (PyFloat y) \<Longrightarrow> float_is_zero y \<Longrightarrow>
   fst (eval_node m self (BinOp left Mod right)) = Inl ZeroDivisionError
   \<and> eval_handlers (fst (eval_node m self (BinOp left Mod right))) =
       Inl (ValueError DivisionByZeroMessage)"
  by (simp add: fst_eval_node float_rem_def)

lemma modulo_by_zero_of_complex:
  "fst (eval_node m self left) = Inr (PyComplex re im) \<Longrightarrow>
   fst (eval_node m self right) = Inr r \<Longrightarrow>
   eval_handlers (fst (eval_node m self (BinOp left Mod right))) =
     Inl (ValueError SyntaxErrorMessage)"
  by (simp add: fst_eval_node)

text \<open>
  Claim C10. With float operands the claim holds (\<open>modulo_by_zero_of_floats\<close>): a zero
  right operand raises \<^verbatim>\<open>ZeroDivisionError\<close> as for the division. But the left operand
  can be a complex number, the result of a fractional power of a negative number, and
  Python has no \<^verbatim>\<open>%\<close> for complex numbers: \<^verbatim>\<open>TypeError\<close> is raised, which \<^verbatim>\<open>eval\<close>
  reports as a syntax error. The text \<^verbatim>\<open>((-8)**0.5) % 0\<close> does so on the recorded host.
\<close>

theorem modulo_of_complex_by_zero:
  "fst (evaluator_eval recorded_parse recorded_libm (SafeExpressionEvaluator recorded_libm)
          ''((-8)**0.5) % 0'') = Inl (ValueError SyntaxErrorMessage)
   \<and> fst (evaluator_eval recorded_parse recorded_libm (SafeExpressionEvaluator recorded_libm)
          ''5 % 0'') = Inl (ValueError DivisionByZeroMessage)"
  by (simp add: fst_evaluator_eval recorded_parse_def recorded_parses_def fst_eval_node
        float_of_int_small float_pow_minus_8_half complex_pow_def recorded_libm_def
        float_rem_def float_is_zero_def)

section \<open>Formatting\<close>

subsection \<open>Rounding to binary64 is exact on binary64 numbers\<close>

lemma pow2_powi: "pow2 e = 2 powi e"
  by (simp add: pow2_def power_int_def power_divide inverse_eq_divide)

lemma pow2_pos [simp]: "0 < pow2 e"
  by (simp add: pow2_powi)

lemma pow2_add: "pow2 (a + b) = pow2 a * pow2 b"
  by (simp add: pow2_powi power_int_add)

lemma pow2_diff: "pow2 (a - b) = pow2 a / pow2 b"
  by (simp add: pow2_powi power_int_diff)

lemma pow2_less_iff [simp]: "pow2 a < pow2 b \<longleftrightarrow> a < b"
proof
  assume "pow2 a < pow2 b"
  show "a < b"
  proof (rule ccontr)
    assume "\<not> a < b"
    then have "b \<le> a" by simp
    then have "pow2 b \<le> pow2 a"
      unfolding pow2_powi by (intro power_int_increasing) simp_all
    with \<open>pow2 a < pow2 b\<close> show False by simp
  qed
next
  assume "a < b"
  then show "pow2 a < pow2 b"
    unfolding pow2_powi by (intro power_int_strict_increasing) simp_all
qed

lemma pow2_le_iff [simp]: "pow2 a \<le> pow2 b \<longleftrightarrow> a \<le> b"
  using pow2_less_iff [of b a] by (auto simp: not_less [symmetric] simp del: pow2_less_iff)

lemma pow2_nonneg: "0 \<le> e \<Longrightarrow> pow2 e = of_int (2 ^ nat e)"
  by (simp add: pow2_def)

lemma pow2_0 [simp]: "pow2 0 = 1"
  by (simp add: pow2_def)

lemma round_half_even_of_int [simp]: "round_half_even (of_int k) = k"
  by (simp add: round_half_even_def)

lemma round_half_even_close: "\<bar>r - of_int (round_half_even r)\<bar> \<le> 1 / 2"
proof -
  define d where "d = r - of_int \<lfloor>r\<rfloor>"
  have d: "0 \<le> d" "d < 1"
    unfolding d_def by linarith+
  have r: "r = of_int \<lfloor>r\<rfloor> + d"
    by (simp add: d_def)
  have "round_half_even r = \<lfloor>r\<rfloor> \<and> d \<le> 1 / 2 \<or> round_half_even r = \<lfloor>r\<rfloor> + 1 \<and> 1 / 2 \<le> d"
    unfolding d_def round_half_even_def Let_def by (simp only: split: if_splits) linarith
  then show ?thesis
  proof
    assume "round_half_even r = \<lfloor>r\<rfloor> \<and> d \<le> 1 / 2"
    then show ?thesis using d by (subst r) simp
  next
    assume "round_half_even r = \<lfloor>r\<rfloor> + 1 \<and> 1 / 2 \<le> d"
    then show ?thesis using d by (subst r) (simp add: abs_if)
  qed
qed

lemma ilog2_bounds:
  assumes "0 < a"
  shows "pow2 (ilog2 a) \<le> a" and "a < pow2 (ilog2 a + 1)"
proof -
  obtain p d where pd: "quotient_of a = (p, d)"
    by (cases "quotient_of a")
  then have d: "0 < d" and a: "a = of_int p / of_int d"
    by (simp_all add: quotient_of_denom_pos quotient_of_div)
  with assms have p: "0 < p"
    by (simp add: zero_less_divide_iff)
  let ?k = "bitlen p - bitlen d"
  from bitlen_bounds [OF p] have bp: "2 ^ nat (bitlen p - 1) \<le> p" "p < 2 ^ nat (bitlen p)"
    by simp_all
  from bitlen_bounds [OF d] have bd: "2 ^ nat (bitlen d - 1) \<le> d" "d < 2 ^ nat (bitlen d)"
    by simp_all
  have p1: "1 \<le> bitlen p" using p by (simp add: bitlen_alt_def)
  have d1: "1 \<le> bitlen d" using d by (simp add: bitlen_alt_def)
  have P: "pow2 (bitlen p - 1) \<le> of_int p" "of_int p < pow2 (bitlen p)"
    using bp p1 by (simp_all add: pow2_nonneg del: of_int_power)
  have D: "pow2 (bitlen d - 1) \<le> of_int d" "of_int d < pow2 (bitlen d)"
    using bd d1 by (simp_all add: pow2_nonneg del: of_int_power)
  have dpos: "0 < (of_int d :: rat)" using d by simp
  have up: "a < pow2 (?k + 1)"
  proof -
    have "a < pow2 (bitlen p) / of_int d"
      unfolding a using P(2) dpos by (simp add: divide_strict_right_mono)
    also have "\<dots> \<le> pow2 (bitlen p) / pow2 (bitlen d - 1)"
      using D(1) dpos by (intro divide_left_mono mult_pos_pos) (simp_all add: less_imp_le)
    also have "\<dots> = pow2 (?k + 1)"
      by (simp add: pow2_diff [symmetric] algebra_simps)
    finally show ?thesis .
  qed
  have low: "pow2 (?k - 1) \<le> a"
  proof -
    have "pow2 (?k - 1) = pow2 (bitlen p - 1) / pow2 (bitlen d)"
      by (simp add: pow2_diff [symmetric] algebra_simps)
    also have "\<dots> \<le> pow2 (bitlen p - 1) / of_int d"
      using D(2) dpos by (intro divide_left_mono mult_pos_pos) (simp_all add: less_imp_le)
    also have "\<dots> \<le> a"
      unfolding a using P(1) dpos by (simp add: divide_right_mono)
    finally show ?thesis .
  qed
  have il: "ilog2 a = (if pow2 ?k \<le> a then ?k else ?k - 1)"
    by (simp add: ilog2_def pd Let_def)
  show "pow2 (ilog2 a) \<le> a"
    using low by (simp add: il)
  show "a < pow2 (ilog2 a + 1)"
    using up by (simp add: il not_le)
qed

lemma ilog2_less: "0 < a \<Longrightarrow> a < pow2 e \<Longrightarrow> ilog2 a < e"
  using ilog2_bounds(1) [of a] pow2_less_iff [of "ilog2 a" e] by (simp del: pow2_less_iff)

lemma ilog2_ge: "0 < a \<Longrightarrow> pow2 e \<le> a \<Longrightarrow> e \<le> ilog2 a"
  using ilog2_bounds(2) [of a] pow2_less_iff [of e "ilog2 a + 1"] by (simp del: pow2_less_iff)


lemma abs_pow2 [simp]: "\<bar>pow2 e\<bar> = pow2 e"
  by (simp add: abs_of_pos)

lemma pow2_bitlen_le: "0 < k \<Longrightarrow> pow2 (bitlen k - 1) \<le> of_int k"
proof -
  assume k: "0 < k"
  then have "1 \<le> bitlen k" by (simp add: bitlen_alt_def)
  moreover from bitlen_bounds [OF k] have "2 ^ nat (bitlen k - 1) \<le> k" by simp
  ultimately show ?thesis
    by (simp add: pow2_nonneg del: of_int_power)
qed

lemma round_double_exact_lt:
  assumes q: "q = of_int m * pow2 e" and m: "\<bar>m\<bar> < 2 ^ 53"
    and e: "- 1074 \<le> e" and lt: "\<bar>q\<bar> < pow2 1024"
  shows "round_double q = Finite q"
proof (cases "q = 0")
  case True
  then show ?thesis by (simp add: round_double_def)
next
  case False
  with q have m0: "m \<noteq> 0" by auto
  define a where "a = \<bar>q\<bar>"
  have a: "a = of_int \<bar>m\<bar> * pow2 e"
    by (simp add: a_def q abs_mult)
  have apos: "0 < a" using False by (simp add: a_def)
  define e' where "e' = max (ilog2 a - 52) (- 1074)"
  have "(of_int \<bar>m\<bar> :: rat) < of_int (2 ^ 53)"
    using m by (simp only: of_int_less_iff)
  then have "a < of_int (2 ^ 53) * pow2 e"
    unfolding a by (simp add: mult_strict_right_mono)
  also have "\<dots> = pow2 (53 + e)"
    by (simp add: pow2_add pow2_nonneg)
  finally have "ilog2 a < 53 + e"
    using apos by (intro ilog2_less)
  then have e'e: "e' \<le> e" using e by (simp add: e'_def)
  define K where "K = \<bar>m\<bar> * 2 ^ nat (e - e')"
  have Kpos: "0 < K" using m0 by (simp add: K_def)
  have "a / pow2 e' = of_int \<bar>m\<bar> * pow2 (e - e')"
    by (simp add: a pow2_diff)
  also have "\<dots> = of_int K"
    using e'e by (simp add: K_def pow2_nonneg)
  finally have aK: "a / pow2 e' = of_int K" .
  have "pow2 e' \<noteq> 0"
    by (metis pow2_pos less_irrefl)
  with aK have v: "of_int K * pow2 e' = a"
    by (simp add: nonzero_divide_eq_eq)
  have bl: "bitlen K = bitlen \<bar>m\<bar> + (e - e')"
    using bitlen_pow2 [of "\<bar>m\<bar>" "nat (e - e')"] e'e m0 by (simp add: K_def)
  have "pow2 (bitlen \<bar>m\<bar> - 1 + e) = pow2 (bitlen \<bar>m\<bar> - 1) * pow2 e"
    by (simp add: pow2_add)
  also have "\<dots> \<le> a"
    unfolding a using pow2_bitlen_le [of "\<bar>m\<bar>"] m0 by (simp add: mult_right_mono)
  also have "\<dots> < pow2 1024" using lt by (simp add: a_def)
  finally have "bitlen \<bar>m\<bar> - 1 + e < 1024" by simp
  then have no_overflow: "\<not> 1024 < e' + bitlen K"
    by (simp add: bl)
  have sign: "0 < q \<Longrightarrow> a = q" "\<not> 0 < q \<Longrightarrow> - a = q"
    by (simp_all add: a_def)
  have "round_double q =
      (if 1024 < e' + bitlen (round_half_even (a / pow2 e')) then (if 0 < q then PInf else NInf)
       else Finite (if 0 < q then of_int (round_half_even (a / pow2 e')) * pow2 e'
                    else - (of_int (round_half_even (a / pow2 e')) * pow2 e')))"
    by (simp only: round_double_def Let_def a_def e'_def False if_False)
  also have "\<dots> = Finite q"
    unfolding aK using no_overflow sign v by simp
  finally show ?thesis .
qed

lemma round_double_exact:
  assumes q: "q = of_int m * pow2 e" and m: "\<bar>m\<bar> \<le> 2 ^ 53"
    and e: "- 1074 \<le> e" and lt: "\<bar>q\<bar> < pow2 1024"
  shows "round_double q = Finite q"
proof (cases "\<bar>m\<bar> < 2 ^ 53")
  case True
  with q e lt show ?thesis by (intro round_double_exact_lt [of q m e])
next
  case False
  with m have "\<bar>m\<bar> = 2 ^ 53" by simp
  then have "m = 9007199254740992 \<or> m = - 9007199254740992"
    by (simp add: abs_if split: if_splits)
  then have "m = 2 * (m div 2)" "\<bar>m div 2\<bar> < 2 ^ 53"
    by auto
  from this(1) have "(of_int m :: rat) = 2 * of_int (m div 2)"
    by (metis of_int_mult of_int_numeral)
  moreover have "pow2 (e + 1) = pow2 e * 2"
    by (simp add: pow2_add) (simp add: pow2_def)
  ultimately have "q = of_int (m div 2) * pow2 (e + 1)"
    unfolding q by simp
  with \<open>\<bar>m div 2\<bar> < 2 ^ 53\<close> e lt show ?thesis
    by (intro round_double_exact_lt [of q "m div 2" "e + 1"]) simp_all
qed


lemma round_half_even_bounds:
  assumes "0 \<le> r"
  shows "0 \<le> round_half_even r" and "round_half_even r \<le> \<lfloor>r\<rfloor> + 1"
proof -
  from assms have "0 \<le> \<lfloor>r\<rfloor>" by simp
  then show "0 \<le> round_half_even r"
    by (simp add: round_half_even_def Let_def)
  show "round_half_even r \<le> \<lfloor>r\<rfloor> + 1"
    by (simp add: round_half_even_def Let_def)
qed

lemma pow2_bitlen_gt: "0 \<le> k \<Longrightarrow> of_int k < pow2 (bitlen k)"
proof (cases "k = 0")
  case True
  then show ?thesis by simp
next
  case False
  assume "0 \<le> k"
  with False have k: "0 < k" by simp
  from bitlen_bounds [OF k] have "k < 2 ^ nat (bitlen k)" by simp
  then have "(of_int k :: rat) < of_int (2 ^ nat (bitlen k))"
    by (simp only: of_int_less_iff)
  then show ?thesis
    by (simp add: pow2_nonneg bitlen_nonneg del: of_int_power)
qed

lemma is_binary64_representation:
  assumes "is_binary64 q"
  shows "\<exists>m e. q = of_int m * pow2 e \<and> \<bar>m\<bar> \<le> 2 ^ 53 \<and> - 1074 \<le> e \<and> \<bar>q\<bar> < pow2 1024"
proof (cases "q = 0")
  case True
  then have "q = of_int 0 * pow2 0 \<and> \<bar>0::int\<bar> \<le> 2 ^ 53 \<and> (- 1074 :: int) \<le> 0 \<and> \<bar>q\<bar> < pow2 1024"
    by simp
  then show ?thesis by blast
next
  case False
  define a where "a = \<bar>q\<bar>"
  have apos: "0 < a" using False by (simp add: a_def)
  define e' where "e' = max (ilog2 a - 52) (- 1074)"
  define M where "M = round_half_even (a / pow2 e')"
  have rd: "round_double q =
      (if 1024 < e' + bitlen M then (if 0 < q then PInf else NInf)
       else Finite (if 0 < q then of_int M * pow2 e' else - (of_int M * pow2 e')))"
    by (simp only: round_double_def Let_def a_def e'_def M_def False if_False)
  from assms have fin: "round_double q = Finite q"
    by (simp add: is_binary64_def)
  have no_overflow: "\<not> 1024 < e' + bitlen M"
    using fin unfolding rd by (auto split: if_splits)
  with fin have q: "q = (if 0 < q then of_int M * pow2 e' else - (of_int M * pow2 e'))"
    unfolding rd by simp
  have "a / pow2 e' \<le> a / pow2 (ilog2 a - 52)"
    using apos by (intro divide_left_mono mult_pos_pos) (simp_all add: e'_def less_imp_le)
  also have "\<dots> < pow2 (ilog2 a + 1) / pow2 (ilog2 a - 52)"
    using ilog2_bounds(2) [OF apos] by (simp add: divide_strict_right_mono)
  also have "\<dots> = pow2 53"
    by (simp add: pow2_diff [symmetric])
  finally have lt53: "a / pow2 e' < pow2 53" .
  have nonneg: "0 \<le> a / pow2 e'"
    using apos by (simp add: less_imp_le)
  have fl: "\<lfloor>a / pow2 e'\<rfloor> + 1 \<le> 2 ^ 53"
    using lt53 by (simp add: floor_less_iff pow2_nonneg)
  have M: "0 \<le> M" "M \<le> 2 ^ 53"
    unfolding M_def
    using round_half_even_bounds(1) [OF nonneg]
      order_trans [OF round_half_even_bounds(2) [OF nonneg] fl]
    by blast+
  have "\<bar>q\<bar> = of_int M * pow2 e'"
    using q M(1) by (subst q) (simp add: abs_mult split: if_splits)
  also have "\<dots> < pow2 (bitlen M) * pow2 e'"
    using pow2_bitlen_gt [OF M(1)] by (simp add: mult_strict_right_mono)
  also have "\<dots> = pow2 (e' + bitlen M)"
    by (simp add: pow2_add mult.commute)
  also have "\<dots> \<le> pow2 1024"
    using no_overflow by simp
  finally have lt: "\<bar>q\<bar> < pow2 1024" .
  have e': "- 1074 \<le> e'" by (simp add: e'_def)
  show ?thesis
  proof (cases "0 < q")
    case True
    with q have "q = of_int M * pow2 e'" by simp
    with M e' lt show ?thesis by (intro exI [of _ M] exI [of _ e']) simp
  next
    case False
    with q have "q = of_int (- M) * pow2 e'" by simp
    with M e' lt show ?thesis by (intro exI [of _ "- M"] exI [of _ e']) simp
  qed
qed

lemma is_binary64_iff:
  "is_binary64 q \<longleftrightarrow>
     (\<exists>m e. q = of_int m * pow2 e \<and> \<bar>m\<bar> \<le> 2 ^ 53 \<and> - 1074 \<le> e \<and> \<bar>q\<bar> < pow2 1024)"
  using is_binary64_representation [of q] round_double_exact [of q]
  by (auto simp: is_binary64_def)

lemma is_binary64_of_int: "\<bar>n\<bar> \<le> 2 ^ 53 \<Longrightarrow> is_binary64 (of_int n)"
proof -
  assume n: "\<bar>n\<bar> \<le> 2 ^ 53"
  then have "\<bar>of_int n :: rat\<bar> \<le> of_int (2 ^ 53)"
    by (simp only: of_int_abs [symmetric] of_int_le_iff)
  also have "\<dots> < pow2 1024"
    by (simp add: pow2_def)
  finally have "\<bar>of_int n :: rat\<bar> < pow2 1024" .
  with n show ?thesis
    unfolding is_binary64_def by (intro round_double_exact [of _ n 0]) simp_all
qed


lemma pow2_neg: "e < 0 \<Longrightarrow> pow2 e * of_int (2 ^ nat (- e)) = 1"
  by (simp add: pow2_def)

lemma binary64_non_integer:
  assumes b: "is_binary64 q" and ni: "of_int \<lfloor>q\<rfloor> \<noteq> q"
  shows "round_double (of_int (round_half_even q)) = Finite (of_int (round_half_even q))"
    and "round_double (q - of_int (round_half_even q)) = Finite (q - of_int (round_half_even q))"
proof -
  define n where "n = round_half_even q"
  from is_binary64_representation [OF b] obtain m e
    where q: "q = of_int m * pow2 e" and m: "\<bar>m\<bar> \<le> 2 ^ 53" and e: "- 1074 \<le> e"
      and lt: "\<bar>q\<bar> < pow2 1024"
    by blast
  have eneg: "e < 0"
  proof (rule ccontr)
    assume "\<not> e < 0"
    then have "q = of_int (m * 2 ^ nat e)"
      by (simp add: q pow2_def)
    then have "of_int \<lfloor>q\<rfloor> = q"
      by (metis floor_of_int)
    with ni show False by simp
  qed
  have m': "(of_int \<bar>m\<bar> :: rat) \<le> pow2 53"
    using m by (simp add: pow2_def del: of_int_abs)
  have close: "\<bar>q - of_int n\<bar> \<le> 1 / 2"
    unfolding n_def by (rule round_half_even_close)
  have "\<bar>q\<bar> = of_int \<bar>m\<bar> * pow2 e"
    by (simp add: q abs_mult)
  also have "\<dots> \<le> pow2 53 * pow2 e"
    using m' by (simp add: mult_right_mono)
  also have "\<dots> = pow2 (53 + e)"
    by (simp add: pow2_add)
  finally have qle: "\<bar>q\<bar> \<le> pow2 (53 + e)" .
  also have "\<dots> \<le> pow2 52"
    using eneg by simp
  finally have q52: "\<bar>q\<bar> \<le> pow2 52" .
  have "\<bar>of_int n :: rat\<bar> \<le> \<bar>q\<bar> + \<bar>q - of_int n\<bar>"
    by linarith
  also have "\<dots> \<le> pow2 52 + 1 / 2"
    using q52 close by linarith
  also have "\<dots> \<le> of_int (2 ^ 53)"
    by (simp add: pow2_def)
  finally have "(of_int \<bar>n\<bar> :: rat) \<le> of_int (2 ^ 53)"
    by simp
  then have n53: "\<bar>n\<bar> \<le> 2 ^ 53"
    by (simp only: of_int_le_iff)
  from is_binary64_of_int [OF n53]
  show "round_double (of_int (round_half_even q)) = Finite (of_int (round_half_even q))"
    by (simp add: is_binary64_def n_def)
  show "round_double (q - of_int (round_half_even q)) = Finite (q - of_int (round_half_even q))"
  proof (cases "n = 0")
    case True
    with b show ?thesis by (simp add: is_binary64_def n_def)
  next
    case False
    then have "1 \<le> \<bar>n\<bar>" by simp
    then have "(1 :: rat) \<le> \<bar>of_int n\<bar>"
      by (metis of_int_1 of_int_abs of_int_le_iff)
    with close have "1 / 2 \<le> \<bar>q\<bar>" by linarith
    with qle have "pow2 (- 1) \<le> pow2 (53 + e)"
      by (simp add: pow2_def)
    then have e54: "- 54 \<le> e" by simp
    define M where "M = m - n * 2 ^ nat (- e)"
    have "of_int M * pow2 e = of_int m * pow2 e - of_int n * (pow2 e * of_int (2 ^ nat (- e)))"
      by (simp add: M_def algebra_simps)
    also have "\<dots> = q - of_int n"
      by (simp only: pow2_neg [OF eneg] q mult_1_right)
    finally have d: "q - of_int n = of_int M * pow2 e" by simp
    have "of_int \<bar>M\<bar> * pow2 e = \<bar>q - of_int n\<bar>"
      by (simp add: d abs_mult)
    also have "\<dots> \<le> pow2 (- 1)"
      using close by (simp add: pow2_def)
    finally have "of_int \<bar>M\<bar> \<le> pow2 (- 1) / pow2 e"
      by (simp add: pos_le_divide_eq)
    also have "\<dots> = pow2 (- 1 - e)"
      by (simp add: pow2_diff)
    also have "\<dots> \<le> pow2 53"
      using e54 by simp
    also have "\<dots> = of_int (2 ^ 53)"
      by (simp add: pow2_def)
    finally have "\<bar>M\<bar> \<le> 2 ^ 53"
      by (simp only: of_int_le_iff)
    moreover have "\<bar>q - of_int n\<bar> < pow2 1024"
    proof -
      have "\<bar>q - of_int n\<bar> < pow2 0" using close by simp
      also have "\<dots> \<le> pow2 1024" by (simp only: pow2_le_iff)
      finally show ?thesis .
    qed
    ultimately show ?thesis
      using d e unfolding n_def [symmetric]
      by (intro round_double_exact [of _ M e]) simp_all
  qed
qed


lemma binary64_below_1e_10:
  assumes "is_binary64 d"
  shows "\<bar>d\<bar> < 7737125245533627 / 2 ^ 86 \<longleftrightarrow> \<bar>d\<bar> < 1 / 10 ^ 10"
proof
  assume "\<bar>d\<bar> < 1 / 10 ^ 10"
  also have "(1 :: rat) / 10 ^ 10 < 7737125245533627 / 2 ^ 86"
    by simp
  finally show "\<bar>d\<bar> < 7737125245533627 / 2 ^ 86" .
next
  assume lt: "\<bar>d\<bar> < 7737125245533627 / 2 ^ 86"
  show "\<bar>d\<bar> < 1 / 10 ^ 10"
  proof (rule ccontr)
    assume "\<not> \<bar>d\<bar> < 1 / 10 ^ 10"
    then have ge: "1 / 10 ^ 10 \<le> \<bar>d\<bar>" by simp
    from is_binary64_representation [OF assms] obtain m e
      where d: "d = of_int m * pow2 e" and m: "\<bar>m\<bar> \<le> 2 ^ 53"
      by blast
    have m': "(of_int \<bar>m\<bar> :: rat) \<le> pow2 53"
      using m by (simp add: pow2_def del: of_int_abs)
    have "pow2 (- 34) < (1 :: rat) / 10 ^ 10"
      by (simp add: pow2_def)
    also note ge
    also have "\<bar>d\<bar> = of_int \<bar>m\<bar> * pow2 e"
      by (simp add: d abs_mult)
    also have "\<dots> \<le> pow2 53 * pow2 e"
      using m' by (simp add: mult_right_mono)
    also have "\<dots> = pow2 (53 + e)"
      by (simp add: pow2_add)
    finally have e86: "- 86 \<le> e" by simp
    define J where "J = \<bar>m\<bar> * 2 ^ nat (e + 86)"
    have "pow2 e = pow2 (e + 86) * pow2 (- 86)"
      by (simp add: pow2_add [symmetric])
    also have "pow2 (e + 86) = of_int (2 ^ nat (e + 86))"
      using e86 by (simp add: pow2_nonneg)
    finally have "\<bar>d\<bar> = of_int J * pow2 (- 86)"
      by (simp add: d abs_mult J_def)
    then have dJ: "\<bar>d\<bar> = of_int J / 2 ^ 86"
      by (simp add: pow2_def)
    with lt have "(of_int J :: rat) < of_int 7737125245533627"
      by (simp add: divide_less_cancel)
    then have "J < 7737125245533627"
      by (simp only: of_int_less_iff)
    then have "J \<le> 7737125245533626" by simp
    then have "(of_int J :: rat) \<le> of_int 7737125245533626"
      by (simp only: of_int_le_iff)
    then have "\<bar>d\<bar> \<le> 7737125245533626 / 2 ^ 86"
      unfolding dJ by (simp add: divide_right_mono)
    also have "\<dots> < (1 :: rat) / 10 ^ 10"
      by simp
    finally show False using ge by simp
  qed
qed

subsection \<open>The decimal string of an integer\<close>

lemma digit_value_digit_char: "d < 10 \<Longrightarrow> digit_value (digit_char d) = d"
  by (simp add: digit_value_def digit_char_def)

lemma is_digit_digit_char: "d < 10 \<Longrightarrow> is_digit (digit_char d)"
  by (simp add: is_digit_def digit_char_def)

lemma decimal_value_snoc: "decimal_value (ds @ [c]) = 10 * decimal_value ds + digit_value c"
  by (simp add: decimal_value_def)

lemma decimal_value_digits_of: "decimal_value (digits_of k) = k"
proof (induction k rule: digits_of.induct)
  case (1 n)
  show ?case
  proof (cases "n < 10")
    case True
    then show ?thesis
      by (subst digits_of.simps) (simp add: decimal_value_def digit_value_digit_char)
  next
    case False
    with 1 show ?thesis
      by (subst digits_of.simps) (simp add: decimal_value_snoc digit_value_digit_char)
  qed
qed

lemma digits_of_digits: "list_all is_digit (digits_of k)"
proof (induction k rule: digits_of.induct)
  case (1 n)
  show ?case
  proof (cases "n < 10")
    case True
    then show ?thesis
      by (subst digits_of.simps) (simp add: is_digit_digit_char)
  next
    case False
    with 1 show ?thesis
      by (subst digits_of.simps) (simp add: is_digit_digit_char)
  qed
qed

lemma digits_of_nonempty: "digits_of k \<noteq> []"
  by (subst digits_of.simps) simp

lemma int_of_str_str_int: "int_of_str (str_int n) = n"
proof (cases "n < 0")
  case True
  then show ?thesis
    by (simp add: int_of_str_def str_int_def decimal_value_digits_of)
next
  case False
  obtain c cs where ds: "digits_of (nat n) = c # cs"
    using digits_of_nonempty [of "nat n"] by (cases "digits_of (nat n)") auto
  with digits_of_digits [of "nat n"] have "is_digit c" by simp
  then have "c \<noteq> CHR ''-''"
    by (auto simp: is_digit_def)
  with False ds decimal_value_digits_of [of "nat n"] show ?thesis
    by (simp add: int_of_str_def str_int_def)
qed

subsection \<open>The three tiers\<close>

lemma rat_trunc_of_int [simp]: "rat_trunc (of_int k) = k"
  by (simp add: rat_trunc_def)

lemma format_result_integer:
  assumes "of_int \<lfloor>q\<rfloor> = q"
  shows "format_result fmt (Finite q) = Inr (str_int (round_half_even q))"
proof -
  from assms obtain k where q: "q = of_int k" by metis
  show ?thesis
    by (simp add: q format_result_def float_is_integer_def int_of_float_def)
qed

lemma format_result_non_integer:
  assumes b: "is_binary64 q" and ni: "of_int \<lfloor>q\<rfloor> \<noteq> q"
  shows "format_result fmt (Finite q) =
     Inr (if \<bar>q - of_int (round_half_even q)\<bar> < 1 / 10 ^ 10 then str_int (round_half_even q)
          else if 1000000 \<le> \<bar>q\<bar> \<or> \<bar>q\<bar> \<le> 7378697629483821 / 2 ^ 66
          then fmt ''.6e'' (Finite q)
          else fmt ''.8g'' (Finite q))"
proof -
  let ?n = "round_half_even q"
  note ex = binary64_non_integer [OF b ni]
  have n: "float_of_int ?n = Inr (Finite (of_int ?n))"
    by (simp add: float_of_int_def ex(1))
  have sub: "ieee_sub (Finite q) (Finite (of_int ?n)) = Finite (q - of_int ?n)"
    by (simp add: ieee_sub_def ex(2))
  have "is_binary64 (q - of_int ?n)"
    by (simp add: is_binary64_def ex(2))
  note near = binary64_below_1e_10 [OF this]
  show ?thesis
    using ni near
    by (simp add: format_result_def float_is_integer_def py_round_def n sub
          double_1e_10_def double_1e6_def double_1e_4_def)
qed

text \<open>
  The tiers on the finite floats. For every binary64 number \<open>q\<close>: when \<open>q\<close> is less than
  \<open>10\<^sup>-\<^sup>1\<^sup>0\<close> away from the integer it rounds to, the text is the decimal string of that
  integer (an optional minus sign and digits, which read back as the integer);
  otherwise, when the magnitude is at least \<open>10\<^sup>6\<close> or at most the float \<^verbatim>\<open>1e-4\<close>, the text
  is the float formatted with \<^verbatim>\<open>.6e\<close>, and else the float formatted with \<^verbatim>\<open>.8g\<close>. The
  subtraction and the comparison of line 246 are carried out in binary64; the lemma
  states them in exact arithmetic, which is the same here.
\<close>

lemma format_result_tiers:
  "(is_binary64 q \<longrightarrow>
      format_result fmt (Finite q) =
        Inr (if \<bar>q - of_int (round_half_even q)\<bar> < 1 / 10 ^ 10 then str_int (round_half_even q)
             else if 1000000 \<le> \<bar>q\<bar> \<or> \<bar>q\<bar> \<le> 7378697629483821 / 2 ^ 66
             then fmt ''.6e'' (Finite q)
             else fmt ''.8g'' (Finite q)))
   \<and> int_of_str (str_int n) = n
   \<and> str_int n = (if n < 0 then CHR ''-'' # digits_of (nat (- n)) else digits_of (nat n))
   \<and> list_all is_digit (digits_of k)"
proof -
  have "format_result fmt (Finite q) = Inr (str_int (round_half_even q))"
    "\<bar>q - of_int (round_half_even q)\<bar> < 1 / 10 ^ 10" if "of_int \<lfloor>q\<rfloor> = q"
  proof -
    from that show "format_result fmt (Finite q) = Inr (str_int (round_half_even q))"
      by (rule format_result_integer)
    from that obtain j where "q = of_int j" by metis
    then show "\<bar>q - of_int (round_half_even q)\<bar> < 1 / 10 ^ 10" by simp
  qed
  then have tiers: "is_binary64 q \<longrightarrow>
      format_result fmt (Finite q) =
        Inr (if \<bar>q - of_int (round_half_even q)\<bar> < 1 / 10 ^ 10 then str_int (round_half_even q)
             else if 1000000 \<le> \<bar>q\<bar> \<or> \<bar>q\<bar> \<le> 7378697629483821 / 2 ^ 66
             then fmt ''.6e'' (Finite q)
             else fmt ''.8g'' (Finite q))"
    using format_result_non_integer [of q fmt]
    by (cases "of_int \<lfloor>q\<rfloor> = q") simp_all
  have "str_int n = (if n < 0 then CHR ''-'' # digits_of (nat (- n)) else digits_of (nat n))"
    by (simp add: str_int_def)
  with tiers int_of_str_str_int [of n] digits_of_digits [of k] show ?thesis
    by blast
qed

lemma format_result_tiers_examples:
  "is_binary64 (5 / 2) \<and> is_binary64 (2469135 / 2) \<and> is_binary64 3
   \<and> format_result recorded_format (Finite (5 / 2)) = Inr ''2.5''
   \<and> format_result recorded_format (Finite (2469135 / 2)) = Inr ''1.234568e+06''
   \<and> format_result recorded_format (Finite 3) = Inr ''3''"
proof -
  have h: "is_binary64 (5 / 2)" "is_binary64 (2469135 / 2)" "is_binary64 3"
    unfolding is_binary64_def by code_simp+
  have r: "round_half_even (5 / 2) = 2" "round_half_even (2469135 / 2) = 1234568"
    "round_half_even 3 = 3"
    by code_simp+
  have s: "str_int 3 = ''3''"
    by code_simp
  from h r s
    format_result_tiers [of "5 / 2" recorded_format]
    format_result_tiers [of "2469135 / 2" recorded_format]
    format_result_tiers [of 3 recorded_format]
  show ?thesis
    by (simp add: recorded_format_def)
qed

text \<open>
  Claim C9. On the finite floats the three tiers of the claim hold
  (\<open>format_result_tiers\<close>). The claim is about every float result, though, and the
  evaluator also returns the infinities and NaN: the text \<^verbatim>\<open>1e999\<close> evaluates to the
  float infinity. For these \<^verbatim>\<open>format_result\<close>, which is annotated to return a string,
  returns none: \<^verbatim>\<open>is_integer\<close> is false, and \<^verbatim>\<open>round(result)\<close> in the near-integer
  test of line 246 raises \<^verbatim>\<open>OverflowError\<close> (\<^verbatim>\<open>ValueError\<close> for NaN) before the
  magnitude tiers are reached.
\<close>

theorem format_result_of_infinity:
  "fst (evaluator_eval recorded_parse recorded_libm (SafeExpressionEvaluator recorded_libm)
          ''1e999'') = Inr (PyFloat PInf)
   \<and> format_result recorded_format PInf =
       Inl (OverflowError (Text ''cannot convert float infinity to integer''))
   \<and> format_result recorded_format NaN =
       Inl (ValueError (Text ''cannot convert float NaN to integer''))"
  by (simp add: fst_evaluator_eval recorded_parse_def recorded_parses_def fst_eval_node
        format_result_def float_is_integer_def py_round_def)

end
